theory Spec2Isabelle
  imports Main "HOL-Library.Word"
begin

unbundle bit_operations_syntax

section \<open>Shared data model of RecurrentNodes.h\<close>

subsection \<open>Faults\<close>

text \<open>
  The three fault helpers of the code base (\<open>LogicError\<close>, \<open>InvalidArgument\<close>,
  \<open>RuntimeError\<close>) throw an exception carrying a message. \<open>MatrixFault\<close> stands for
  a fault raised inside the matrix library and \<open>FileFault\<close> for one raised by the model
  file. An integer division by zero and the use of a null layout pointer stop the
  program; they are kept as faults of their own.
\<close>

datatype error =
    LogicError string
  | InvalidArgument string
  | RuntimeError string
  | MatrixFault
  | FileFault
  | DivisionByZero
  | NullDereference

text \<open>
  A routine that mutates a state \<open>'s\<close> and may throw returns the final state, or the
  fault together with the state at the throw. A loop runs its body over the indices in
  order and stops at the first fault.
\<close>

type_synonym 's result = "(error \<times> 's) + 's"

definition state_of :: "'s result \<Rightarrow> 's" where
  "state_of r = (case r of Inl fault \<Rightarrow> snd fault | Inr s \<Rightarrow> s)"

fun for_each :: "nat list \<Rightarrow> (nat \<Rightarrow> 's \<Rightarrow> 's result) \<Rightarrow> 's \<Rightarrow> 's result" where
  "for_each [] body s = Inr s"
| "for_each (i # rest) body s =
     (case body i s of Inl fault \<Rightarrow> Inl fault | Inr s' \<Rightarrow> for_each rest body s')"

subsection \<open>Packing flags\<close>

text \<open>
  Modelled from the spec: the enum \<open>MinibatchPackingFlags\<close> is declared outside
  RecurrentNodes.h. It is a bit set over one byte with one bit per boundary flag
  (SequenceStart, SequenceEnd, NoFeature, NoLabel); \<open>NoInput\<close> is both NoFeature and
  NoLabel, \<open>None\<close> is the empty set.
\<close>

type_synonym MinibatchPackingFlags = "8 word"

definition None_flag :: MinibatchPackingFlags where
  "None_flag = 0"

definition SequenceStart :: MinibatchPackingFlags where
  "SequenceStart = 1"

definition SequenceEnd :: MinibatchPackingFlags where
  "SequenceEnd = 2"

definition NoFeature :: MinibatchPackingFlags where
  "NoFeature = 4"

definition NoLabel :: MinibatchPackingFlags where
  "NoLabel = 8"

definition NoInput :: MinibatchPackingFlags where
  "NoInput = NoFeature OR NoLabel"

text \<open>The test \<open>(int) x & (int) f\<close> used throughout the file.\<close>

definition has_flag :: "MinibatchPackingFlags \<Rightarrow> MinibatchPackingFlags \<Rightarrow> bool" where
  "has_flag x f = (x AND f \<noteq> 0)"

subsection \<open>Matrices\<close>

text \<open>
  Modelled from the spec: the dense matrix library is an external collaborator. A matrix
  is column-major: a row count and the list of its columns. A column slice is addressed
  by its first column and its width; a slice that leaves the matrix is a fault
  (spec section 7: inconsistent buffer dimensions fail immediately).
\<close>

record 'a Matrix =
  m_numRows :: nat
  m_columns :: "'a list list"

definition GetNumRows :: "'a Matrix \<Rightarrow> nat" where
  "GetNumRows M = m_numRows M"

definition GetNumCols :: "'a Matrix \<Rightarrow> nat" where
  "GetNumCols M = length (m_columns M)"

definition wf_Matrix :: "'a Matrix \<Rightarrow> bool" where
  "wf_Matrix M = list_all (\<lambda>c. length c = m_numRows M) (m_columns M)"

text \<open>Element \<open>M(i, j)\<close>: row \<open>i\<close> of column \<open>j\<close>.\<close>

definition elem :: "'a Matrix \<Rightarrow> nat \<Rightarrow> nat \<Rightarrow> 'a" where
  "elem M i j = m_columns M ! j ! i"

definition SetElem :: "'a Matrix \<Rightarrow> nat \<Rightarrow> nat \<Rightarrow> 'a \<Rightarrow> 'a Matrix" where
  "SetElem M i j v = M\<lparr>m_columns := (m_columns M)[j := (m_columns M ! j)[i := v]]\<rparr>"

definition ConstMatrix :: "nat \<Rightarrow> nat \<Rightarrow> 'a \<Rightarrow> 'a Matrix" where
  "ConstMatrix rows cols v = \<lparr>m_numRows = rows, m_columns = replicate cols (replicate rows v)\<rparr>"

text \<open>
  \<open>Resize\<close> leaves a matrix of the requested size alone. Otherwise the buffer is
  reallocated and its contents are not specified; \<open>u\<close> stands for what it then holds.
\<close>

definition Resize :: "'a \<Rightarrow> nat \<Rightarrow> nat \<Rightarrow> 'a Matrix \<Rightarrow> 'a Matrix" where
  "Resize u numRows numCols M =
     (if GetNumRows M = numRows \<and> GetNumCols M = numCols then M
      else ConstMatrix numRows numCols u)"

definition ColumnSlice :: "'a Matrix \<Rightarrow> nat \<Rightarrow> nat \<Rightarrow> error + 'a list list" where
  "ColumnSlice M startColumn numCols =
     (if startColumn + numCols \<le> GetNumCols M
      then Inr (take numCols (drop startColumn (m_columns M)))
      else Inl MatrixFault)"

text \<open>
  A column slice is a view: writing through it changes the columns of the matrix it was
  taken from. \<open>UpdateSlice M start n f\<close> replaces column \<open>start + c\<close> by \<open>f c\<close> of its
  former value, for \<open>c < n\<close>. \<open>SetValue\<close> with a matrix copies the source columns into
  the view, \<open>SetValueConst\<close> fills the view with a scalar, and \<open>PlusAssign\<close> is \<open>+=\<close>:
  the element-wise sum. Source and view must have the same dimensions.
\<close>

definition UpdateSlice ::
  "'a Matrix \<Rightarrow> nat \<Rightarrow> nat \<Rightarrow> (nat \<Rightarrow> 'a list \<Rightarrow> 'a list) \<Rightarrow> 'a Matrix" where
  "UpdateSlice M startColumn numCols f =
     M\<lparr>m_columns :=
         map (\<lambda>c. if startColumn \<le> c \<and> c < startColumn + numCols
                  then f (c - startColumn) (m_columns M ! c) else m_columns M ! c)
           [0..<length (m_columns M)]\<rparr>"

definition same_shape :: "'a Matrix \<Rightarrow> nat \<Rightarrow> 'a list list \<Rightarrow> bool" where
  "same_shape M numCols src =
     (length src = numCols \<and> list_all (\<lambda>c. length c = GetNumRows M) src)"

definition SetValue :: "'a Matrix \<Rightarrow> nat \<Rightarrow> nat \<Rightarrow> 'a list list \<Rightarrow> 'a Matrix result" where
  "SetValue M startColumn numCols src =
     (if same_shape M numCols src
      then Inr (UpdateSlice M startColumn numCols (\<lambda>c old. src ! c))
      else Inl (MatrixFault, M))"

definition SetValueConst :: "'a Matrix \<Rightarrow> nat \<Rightarrow> nat \<Rightarrow> 'a \<Rightarrow> 'a Matrix" where
  "SetValueConst M startColumn numCols v =
     UpdateSlice M startColumn numCols (\<lambda>c old. replicate (GetNumRows M) v)"

definition PlusAssign ::
  "'a::plus Matrix \<Rightarrow> nat \<Rightarrow> nat \<Rightarrow> 'a list list \<Rightarrow> 'a Matrix result" where
  "PlusAssign M startColumn numCols src =
     (if same_shape M numCols src
      then Inr (UpdateSlice M startColumn numCols (\<lambda>c old. map2 (+) old (src ! c)))
      else Inl (MatrixFault, M))"

text \<open>
  Modelled from the spec: \<open>Mod\<close> is the modulo wrap of an offset into a buffer width
  (spec section 4.2); the result lies between 0 and the width. The library computes it
  on floats: the caller rounds both arguments to \<open>float\<close> before the call
  (\<open>float_of_int\<close> below), and the modulo of two such numbers is exact.
\<close>

definition Mod :: "int \<Rightarrow> int \<Rightarrow> error + int" where
  "Mod x y = (if y \<le> 0 then Inl MatrixFault else Inr (x mod y))"

text \<open>
  Modelled from the spec: \<open>FrameRange\<close> is declared outside RecurrentNodes.h. It names
  one frame: \<open>t()\<close> is the frame index and \<open>NumCols()\<close> the number of parallel
  sequences, that is the columns of one frame.
\<close>

record FrameRange =
  timeIdxInSeq :: nat
  samplesInRecurrentStep :: nat

definition IsEmpty :: "'a Matrix \<Rightarrow> bool" where
  "IsEmpty M = (GetNumRows M = 0 \<or> GetNumCols M = 0)"

text \<open>\<open>A += B\<close> on whole matrices of the same dimensions.\<close>

definition MatrixPlus :: "'a::plus Matrix \<Rightarrow> 'a Matrix \<Rightarrow> error + 'a Matrix" where
  "MatrixPlus A B =
     (if GetNumRows A = GetNumRows B \<and> GetNumCols A = GetNumCols B
      then Inr (A\<lparr>m_columns := map2 (map2 (+)) (m_columns A) (m_columns B)\<rparr>)
      else Inl MatrixFault)"

subsection \<open>Model files\<close>







subsection \<open>Minibatch layout\<close>

text \<open>
  Modelled from the spec: \<open>MBLayout\<close> is declared outside RecurrentNodes.h. It holds the
  per-(stream, frame) boundary flags as a matrix with one row per parallel sequence and
  one column per frame, and per frame the flags of all its streams ORed together.
  \<open>Is\<close> tests the per-frame flags, \<open>Is2\<close> one cell; \<open>Mask\<close> keeps only the given
  flag of a cell and leaves the per-frame flags alone; \<open>SetFlag\<close> ORs a flag into a
  cell and into the frame; \<open>GetFrame\<close> returns a frame's column and its per-frame flags.
\<close>

record MBLayout =
  m_sentenceBoundaryFlags :: "MinibatchPackingFlags Matrix"
  m_minibatchPackingFlags :: "MinibatchPackingFlags list"

definition GetNumParallelSequences :: "MBLayout \<Rightarrow> nat" where
  "GetNumParallelSequences L = GetNumRows (m_sentenceBoundaryFlags L)"

definition GetSize :: "MBLayout \<Rightarrow> nat" where
  "GetSize L = length (m_minibatchPackingFlags L)"

definition Is :: "MBLayout \<Rightarrow> nat \<Rightarrow> MinibatchPackingFlags \<Rightarrow> bool" where
  "Is L t f = has_flag (m_minibatchPackingFlags L ! t) f"

definition Is2 :: "MBLayout \<Rightarrow> nat \<Rightarrow> nat \<Rightarrow> MinibatchPackingFlags \<Rightarrow> bool" where
  "Is2 L s t f = has_flag (elem (m_sentenceBoundaryFlags L) s t) f"

definition Mask :: "MBLayout \<Rightarrow> nat \<Rightarrow> nat \<Rightarrow> MinibatchPackingFlags \<Rightarrow> MBLayout" where
  "Mask L s t f =
     L\<lparr>m_sentenceBoundaryFlags :=
         SetElem (m_sentenceBoundaryFlags L) s t (elem (m_sentenceBoundaryFlags L) s t AND f)\<rparr>"

definition SetFlag :: "MBLayout \<Rightarrow> nat \<Rightarrow> nat \<Rightarrow> MinibatchPackingFlags \<Rightarrow> MBLayout" where
  "SetFlag L s t f =
     (if f = None_flag then L
      else L\<lparr>m_sentenceBoundaryFlags :=
               SetElem (m_sentenceBoundaryFlags L) s t (elem (m_sentenceBoundaryFlags L) s t OR f),
             m_minibatchPackingFlags :=
               (m_minibatchPackingFlags L)[t := m_minibatchPackingFlags L ! t OR f]\<rparr>)"

definition GetFrame :: "MBLayout \<Rightarrow> nat \<Rightarrow> MinibatchPackingFlags list \<times> MinibatchPackingFlags" where
  "GetFrame L t = (m_columns (m_sentenceBoundaryFlags L) ! t, m_minibatchPackingFlags L ! t)"

text \<open>\<open>Resize\<close> on a layout gives one of the requested size without any flag.\<close>

definition new_MBLayout :: "nat \<Rightarrow> nat \<Rightarrow> MBLayout" where
  "new_MBLayout numParallelSequences numTimeSteps =
     \<lparr>m_sentenceBoundaryFlags = ConstMatrix numParallelSequences numTimeSteps None_flag,
      m_minibatchPackingFlags = replicate numTimeSteps None_flag\<rparr>"

text \<open>
  A layout is well formed when the flag matrix is rectangular with one column per frame,
  and consistent when every flag of a cell is also among the flags of its frame.
\<close>

definition wf_MBLayout :: "MBLayout \<Rightarrow> bool" where
  "wf_MBLayout L =
     (wf_Matrix (m_sentenceBoundaryFlags L) \<and>
      GetNumCols (m_sentenceBoundaryFlags L) = length (m_minibatchPackingFlags L))"

definition consistent_frame :: "MinibatchPackingFlags list \<times> MinibatchPackingFlags \<Rightarrow> bool" where
  "consistent_frame fr = list_all (\<lambda>c. c AND snd fr = c) (fst fr)"

definition consistent_MBLayout :: "MBLayout \<Rightarrow> bool" where
  "consistent_MBLayout L = list_all (\<lambda>t. consistent_frame (GetFrame L t)) [0..<GetSize L]"

section \<open>ComputationNode\<close>

text \<open>
  Modelled from the spec: the base class \<open>ComputationNode\<close> is declared outside
  RecurrentNodes.h. Of its members the file uses the value buffer, the gradient buffer
  and the pointer to the shared layout, which is null until a layout is installed.
\<close>

record 'a ComputationNode =
  m_functionValues :: "'a Matrix"
  m_gradientValues :: "'a Matrix"
  m_pMBLayout :: "MBLayout option"

section \<open>DelayedValueNodeBase\<close>

text \<open>
  The two instances of the template: \<open>PastValueNode\<close> is
  \<open>DelayedValueNodeBase<ElemType, -1, SequenceStart>\<close> and \<open>FutureValueNode\<close> is
  \<open>DelayedValueNodeBase<ElemType, +1, SequenceEnd>\<close>.
\<close>

datatype DelayedKind = PastValue | FutureValue

fun direction :: "DelayedKind \<Rightarrow> int" where
  "direction PastValue = -1"
| "direction FutureValue = 1"

fun SequenceStart_or_End :: "DelayedKind \<Rightarrow> MinibatchPackingFlags" where
  "SequenceStart_or_End PastValue = SequenceStart"
| "SequenceStart_or_End FutureValue = SequenceEnd"

text \<open>
  The members of the node. The element type \<open>'a\<close> stands for \<open>float\<close> or
  \<open>double\<close>.
\<close>

record 'a DelayedValueNodeBase = "'a ComputationNode" +
  m_initialActivationValue :: 'a
  m_delayedActivation :: "'a Matrix"
  m_timeStep :: int
  m_pShiftedMBLayout :: MBLayout
  m_historyAlreadySet :: bool

text \<open>
  The constructor with an initial activation, the buffer size and the step:
  \<open>Init\<close> followed by the constructor body. The step arrives as a \<open>size_t\<close> and is
  cast to \<open>int\<close>.
\<close>

definition EmptyMBLayout :: MBLayout where
  "EmptyMBLayout =
     \<lparr>m_sentenceBoundaryFlags = \<lparr>m_numRows = 0, m_columns = []\<rparr>, m_minibatchPackingFlags = []\<rparr>"

definition new_DelayedValueNodeBase ::
  "'a::zero \<Rightarrow> nat \<Rightarrow> nat \<Rightarrow> nat \<Rightarrow> 'a DelayedValueNodeBase" where
  "new_DelayedValueNodeBase initialActivationValue row_size col_size timeStep =
     \<lparr>m_functionValues = ConstMatrix row_size col_size initialActivationValue,
      m_gradientValues = ConstMatrix row_size col_size 0,
      m_pMBLayout = None,
      m_initialActivationValue = initialActivationValue,
      m_delayedActivation = ConstMatrix row_size col_size initialActivationValue,
      m_timeStep = sint (word_of_nat timeStep :: 32 word),
      m_pShiftedMBLayout = EmptyMBLayout,
      m_historyAlreadySet = False\<rparr>"

subsection \<open>SetMBLayout\<close>

text \<open>
  The first inner loop of \<open>SetMBLayout\<close> at stream \<open>j\<close> of frame \<open>i\<close>: a boundary flag
  restarts the countdown of the stream, a frame without features clears it.
\<close>

definition reset_step ::
  "MBLayout \<Rightarrow> MinibatchPackingFlags \<Rightarrow> int \<Rightarrow> nat \<Rightarrow> int list \<Rightarrow> nat \<Rightarrow> int list" where
  "reset_step L B S i numResetLeft j =
     (if Is2 L j i B then numResetLeft[j := S]
      else if Is2 L j i NoFeature then numResetLeft[j := 0]
      else numResetLeft)"

text \<open>
  The second inner loop at stream \<open>j\<close>: \<open>numResetLeft[j]-- > 0\<close> tests the countdown and
  decrements it in every case; a positive countdown masks the cell down to its NoLabel
  flag and implants the boundary flag.
\<close>

definition mark_step ::
  "MinibatchPackingFlags \<Rightarrow> nat \<Rightarrow> MBLayout \<times> int list \<Rightarrow> nat \<Rightarrow> MBLayout \<times> int list" where
  "mark_step B i st j =
     (let shifted = fst st; numResetLeft = snd st; c = numResetLeft ! j;
          numResetLeft' = numResetLeft[j := c - 1]
      in if c > 0 then (SetFlag (Mask shifted j i NoLabel) j i B, numResetLeft')
         else (shifted, numResetLeft'))"

text \<open>The body of the loop over the frames \<open>i\<close>.\<close>

definition shift_frame ::
  "MBLayout \<Rightarrow> MinibatchPackingFlags \<Rightarrow> int \<Rightarrow> MBLayout \<times> int list \<Rightarrow> nat \<Rightarrow> MBLayout \<times> int list" where
  "shift_frame L B S st i =
     (let numRows = GetNumParallelSequences L;
          numResetLeft =
            (if Is L i (B OR NoFeature)
             then foldl (reset_step L B S i) (snd st) [0..<numRows]
             else snd st)
      in foldl (mark_step B i) (fst st, numResetLeft) [0..<numRows])"

definition shifted_layout :: "MBLayout \<Rightarrow> MinibatchPackingFlags \<Rightarrow> int \<Rightarrow> MBLayout" where
  "shifted_layout L B S =
     fst (foldl (shift_frame L B S) (L, replicate (GetNumParallelSequences L) 0) [0..<GetSize L])"

text \<open>
  \<open>SetMBLayout\<close>: the step check comes first and throws before anything is assigned, so
  the fault carries the node as it was. Otherwise the shared layout is installed, the
  shifted layout is a copy of it, and for a step above one the copy is post-processed.
\<close>

definition SetMBLayout ::
  "DelayedKind \<Rightarrow> 'a DelayedValueNodeBase \<Rightarrow> MBLayout \<Rightarrow>
     (error \<times> 'a DelayedValueNodeBase) + 'a DelayedValueNodeBase" where
  "SetMBLayout k n pMBLayout =
     (if m_timeStep n \<le> 0 then Inl (LogicError ''timeStep should be 1 or larger'', n)
      else Inr (n\<lparr>m_pMBLayout := Some pMBLayout,
                  m_pShiftedMBLayout :=
                    (if m_timeStep n > 1
                     then shifted_layout pMBLayout (SequenceStart_or_End k) (m_timeStep n)
                     else pMBLayout)\<rparr>))"

subsection \<open>SetTimeStep\<close>

definition SetTimeStep ::
  "'a DelayedValueNodeBase \<Rightarrow> int \<Rightarrow> (error \<times> 'a DelayedValueNodeBase) + 'a DelayedValueNodeBase" where
  "SetTimeStep n val =
     (if val \<le> 0 then Inl (LogicError ''timeStep must be > 0.'', n)
      else Inr (n\<lparr>m_timeStep := val\<rparr>))"

subsection \<open>SaveToFile and LoadFromFile\<close>



subsection \<open>ComputeInputPartialSRP\<close>

text \<open>
  \<open>timeIdxInSeq + direction * timeStep\<close> adds an \<open>int\<close> to a \<open>size_t\<close>: the sum is
  unsigned and wraps at 64 bits, so a frame before frame 0 comes out as a very large
  index. The test \<open>>= 0\<close> on it is always true and is left out.
\<close>

definition delayed_t :: "DelayedKind \<Rightarrow> nat \<Rightarrow> int \<Rightarrow> nat" where
  "delayed_t k t timeStep = nat ((int t + direction k * timeStep) mod 2 ^ 64)"

text \<open>
  The body of the loop over the streams of a frame with a boundary: a stream whose cell
  has neither the boundary flag nor NoFeature adds its gradient column onto the column of
  the delayed frame.
\<close>

definition ComputeInputPartialSRP_stream ::
  "DelayedKind \<Rightarrow> nat \<Rightarrow> nat \<Rightarrow> int \<Rightarrow> 'a Matrix \<Rightarrow> MinibatchPackingFlags list \<Rightarrow>
     nat \<Rightarrow> 'a::plus Matrix \<Rightarrow> 'a Matrix result" where
  "ComputeInputPartialSRP_stream k t mNbr timeStep gradientValues colBoundaryFlags i
       inputGradientValues =
     (if \<not> has_flag (colBoundaryFlags ! i) (SequenceStart_or_End k) \<and>
         \<not> has_flag (colBoundaryFlags ! i) NoFeature
      then (case ColumnSlice inputGradientValues (delayed_t k t timeStep * mNbr + i) 1 of
              Inl e \<Rightarrow> Inl (e, inputGradientValues)
            | Inr to \<Rightarrow>
               (case ColumnSlice gradientValues (t * mNbr + i) 1 of
                  Inl e \<Rightarrow> Inl (e, inputGradientValues)
                | Inr frm \<Rightarrow>
                    PlusAssign inputGradientValues (delayed_t k t timeStep * mNbr + i) 1 frm))
      else Inr inputGradientValues)"

definition ComputeInputPartialSRP ::
  "DelayedKind \<Rightarrow> FrameRange \<Rightarrow> int \<Rightarrow> 'a::plus Matrix \<Rightarrow> 'a Matrix \<Rightarrow>
     MinibatchPackingFlags list \<Rightarrow> MinibatchPackingFlags \<Rightarrow> 'a Matrix result" where
  "ComputeInputPartialSRP k frameRange timeStep inputGradientValues gradientValues
       colBoundaryFlags minibatchPackingFlags =
     (let t = timeIdxInSeq frameRange; mNbr = samplesInRecurrentStep frameRange in
      if delayed_t k t timeStep < GetNumCols gradientValues
      then
        if has_flag minibatchPackingFlags (SequenceStart_or_End k OR NoFeature)
        then for_each [0..<mNbr]
               (ComputeInputPartialSRP_stream k t mNbr timeStep gradientValues colBoundaryFlags)
               inputGradientValues
        else (case ColumnSlice gradientValues (t * mNbr) mNbr of
                Inl e \<Rightarrow> Inl (e, inputGradientValues)
              | Inr frm \<Rightarrow>
                 (case ColumnSlice inputGradientValues (delayed_t k t timeStep * mNbr) mNbr of
                    Inl e \<Rightarrow> Inl (e, inputGradientValues)
                  | Inr to \<Rightarrow>
                      PlusAssign inputGradientValues (delayed_t k t timeStep * mNbr) mNbr frm))
      else Inr inputGradientValues)"

subsection \<open>EvaluateThisNodeSRP\<close>

text \<open>
  \<open>(int)(timeIdxInSeq + direction * timeStep) * mNbr\<close>, stored in an \<open>int\<close>: the value
  is cut to 32 bits and read as signed.
\<close>

definition int32 :: "int \<Rightarrow> int" where
  "int32 x = sint (word_of_int x :: 32 word)"

definition delayedIndex_of :: "DelayedKind \<Rightarrow> nat \<Rightarrow> int \<Rightarrow> nat \<Rightarrow> int" where
  "delayedIndex_of k t timeStep mNbr = int32 ((int t + direction k * timeStep) * int mNbr)"

text \<open>
  \<open>(float) x\<close> on an integer: the nearest number with a significand of 24 bits, ties
  to the even one; an integer below \<open>2^24\<close> in absolute value is kept. The wrapped
  index \<open>(int) Mod((float) delayedIndex, (float) GetNumCols())\<close> is the modulo of the two
  rounded numbers, cut to an \<open>int\<close>.
\<close>

function bit_length :: "int \<Rightarrow> nat" where
  "bit_length n = (if n \<le> 0 then 0 else Suc (bit_length (n div 2)))"
  by auto

termination
  by (relation "measure nat") auto

declare bit_length.simps [simp del]

definition float_of_int :: "int \<Rightarrow> int" where
  "float_of_int x =
     (if \<bar>x\<bar> < 2 ^ 24 then x
      else let e = bit_length \<bar>x\<bar> - 24;
               q = \<bar>x\<bar> div 2 ^ e;
               r = \<bar>x\<bar> mod 2 ^ e;
               q' = (if 2 * r > 2 ^ e \<or> (2 * r = 2 ^ e \<and> odd q) then q + 1 else q)
           in sgn x * q' * 2 ^ e)"

definition wrapped_index :: "int \<Rightarrow> nat \<Rightarrow> error + int" where
  "wrapped_index delayedIndex numCols =
     (case Mod (float_of_int delayedIndex) (float_of_int (int numCols)) of
        Inl e \<Rightarrow> Inl e
      | Inr r \<Rightarrow> Inr (int32 r))"

text \<open>
  The source of the copy for the slice starting \<open>offset\<close> columns into the delayed
  frame: the input of the current minibatch when the delayed index lies in it, the carry
  of the previous minibatch at the wrapped index \<open>d\<close> when not.
\<close>

definition delayed_source ::
  "int \<Rightarrow> int \<Rightarrow> 'a Matrix \<Rightarrow> 'a Matrix \<Rightarrow> nat \<Rightarrow> nat \<Rightarrow> error + 'a list list" where
  "delayed_source delayedIndex d delayedActivation inputFunctionValues offset numCols =
     (if delayedIndex < 0 \<or> delayedIndex \<ge> int (GetNumCols inputFunctionValues)
      then ColumnSlice delayedActivation (nat d + offset) numCols
      else ColumnSlice inputFunctionValues (nat d + offset) numCols)"

text \<open>The body of the loop over the streams of a frame with a boundary.\<close>

definition EvaluateThisNodeSRP_stream ::
  "DelayedKind \<Rightarrow> nat \<Rightarrow> nat \<Rightarrow> int \<Rightarrow> int \<Rightarrow> 'a Matrix \<Rightarrow> 'a Matrix \<Rightarrow> 'a \<Rightarrow>
     MinibatchPackingFlags list \<Rightarrow> nat \<Rightarrow> 'a Matrix \<Rightarrow> 'a Matrix result" where
  "EvaluateThisNodeSRP_stream k t mNbr delayedIndex d delayedActivation inputFunctionValues
       initStateValue colBoundaryFlags i functionValues =
     (case ColumnSlice functionValues (t * mNbr + i) 1 of
        Inl e \<Rightarrow> Inl (e, functionValues)
      | Inr out \<Rightarrow>
          if has_flag (colBoundaryFlags ! i) (SequenceStart_or_End k)
          then Inr (SetValueConst functionValues (t * mNbr + i) 1 initStateValue)
          else (case delayed_source delayedIndex d delayedActivation inputFunctionValues i 1 of
                  Inl e \<Rightarrow> Inl (e, functionValues)
                | Inr inp \<Rightarrow> SetValue functionValues (t * mNbr + i) 1 inp))"

text \<open>
  \<open>EvaluateThisNodeSRP\<close>. The assertion on the step is compiled out of release builds.
  The output buffer takes the size of the input first; the wrapped index \<open>d\<close> is
  computed, through \<open>float\<close>, when the delayed index leaves the input; the frame's slice of the output is
  taken; then the frame is copied stream by stream when it holds a boundary flag, and in
  one slice when it does not.
\<close>

definition EvaluateThisNodeSRP ::
  "DelayedKind \<Rightarrow> 'a \<Rightarrow> FrameRange \<Rightarrow> int \<Rightarrow> 'a Matrix \<Rightarrow> 'a Matrix \<Rightarrow> 'a Matrix \<Rightarrow> 'a \<Rightarrow>
     MinibatchPackingFlags list \<Rightarrow> MinibatchPackingFlags \<Rightarrow> 'a Matrix result" where
  "EvaluateThisNodeSRP k u frameRange timeStep functionValues delayedActivation
       inputFunctionValues initStateValue colBoundaryFlags minibatchPackingFlags =
     (let t = timeIdxInSeq frameRange; mNbr = samplesInRecurrentStep frameRange;
          F = (if GetNumRows functionValues \<noteq> GetNumRows inputFunctionValues \<or>
                  GetNumCols functionValues \<noteq> GetNumCols inputFunctionValues
               then Resize u (GetNumRows inputFunctionValues) (GetNumCols inputFunctionValues)
                      functionValues
               else functionValues);
          delayedIndex = delayedIndex_of k t timeStep mNbr
      in case (if delayedIndex < 0 \<or> delayedIndex \<ge> int (GetNumCols inputFunctionValues)
               then wrapped_index delayedIndex (GetNumCols delayedActivation)
               else Inr delayedIndex) of
           Inl e \<Rightarrow> Inl (e, F)
         | Inr d \<Rightarrow>
            (case ColumnSlice F (t * mNbr) mNbr of
               Inl e \<Rightarrow> Inl (e, F)
             | Inr out \<Rightarrow>
                 if has_flag minibatchPackingFlags (SequenceStart_or_End k)
                 then for_each [0..<mNbr]
                        (EvaluateThisNodeSRP_stream k t mNbr delayedIndex d delayedActivation
                           inputFunctionValues initStateValue colBoundaryFlags)
                        F
                 else (case delayed_source delayedIndex d delayedActivation
                              inputFunctionValues 0 mNbr of
                         Inl e \<Rightarrow> Inl (e, F)
                       | Inr inp \<Rightarrow> SetValue F (t * mNbr) mNbr inp)))"

subsection \<open>EvaluateThisNode over a whole minibatch\<close>

text \<open>
  \<open>PastValueNode::EvaluateThisNode()\<close> walks the frames upwards,
  \<open>FutureValueNode::EvaluateThisNode()\<close> downwards; both then keep the input as the
  carry of the next minibatch. \<open>X\<close> is \<open>Inputs(0)->FunctionValues()\<close>. The number of
  parallel sequences is read through the layout pointer of the node. The number of frames
  \<open>nbrSamples\<close> and the loop counter are \<open>int\<close>: the quotient is cut to 32 bits, and
  no frame is evaluated when it comes out negative.
\<close>

definition EvaluateThisNode_frame ::
  "DelayedKind \<Rightarrow> 'a \<Rightarrow> nat \<Rightarrow> 'a Matrix \<Rightarrow> nat \<Rightarrow> 'a DelayedValueNodeBase \<Rightarrow>
     'a DelayedValueNodeBase result" where
  "EvaluateThisNode_frame k u numParallelSequences X t n =
     (let colBoundaryFlags = GetFrame (m_pShiftedMBLayout n) t in
      case EvaluateThisNodeSRP k u
             \<lparr>timeIdxInSeq = t, samplesInRecurrentStep = numParallelSequences\<rparr>
             (m_timeStep n) (m_functionValues n) (m_delayedActivation n) X
             (m_initialActivationValue n) (fst colBoundaryFlags) (snd colBoundaryFlags) of
        Inl fault \<Rightarrow> Inl (fst fault, n\<lparr>m_functionValues := snd fault\<rparr>)
      | Inr F \<Rightarrow> Inr (n\<lparr>m_functionValues := F\<rparr>))"

definition frame_order :: "DelayedKind \<Rightarrow> nat \<Rightarrow> nat list" where
  "frame_order k nbrSamples =
     (case k of PastValue \<Rightarrow> [0..<nbrSamples] | FutureValue \<Rightarrow> rev [0..<nbrSamples])"

definition nbrSamples_of :: "'a Matrix \<Rightarrow> MBLayout \<Rightarrow> nat" where
  "nbrSamples_of X L = nat (int32 (int (GetNumCols X div GetNumParallelSequences L)))"

definition EvaluateThisNode ::
  "DelayedKind \<Rightarrow> 'a \<Rightarrow> 'a DelayedValueNodeBase \<Rightarrow> 'a Matrix \<Rightarrow> 'a DelayedValueNodeBase result" where
  "EvaluateThisNode k u n X =
     (case m_pMBLayout n of
        None \<Rightarrow> Inl (NullDereference, n)
      | Some L \<Rightarrow>
          if GetNumParallelSequences L = 0 then Inl (DivisionByZero, n)
          else (case for_each (frame_order k (nbrSamples_of X L))
                       (EvaluateThisNode_frame k u (GetNumParallelSequences L) X) n of
                  Inl fault \<Rightarrow> Inl fault
                | Inr n' \<Rightarrow> Inr (n'\<lparr>m_delayedActivation := X\<rparr>)))"

section \<open>LSTMNode\<close>

text \<open>
  The members of the LSTM node the modelled routines use. \<open>m_children\<close> holds the five
  inputs (the observation and the four weight blocks), each with its value and gradient
  buffer; \<open>Inputs\<close> reads one of them. \<open>Validate\<close> has checked that there are five.
\<close>

record 'a LSTMNode = "'a ComputationNode" +
  m_children :: "'a ComputationNode list"
  m_inputDim :: nat
  m_outputDim :: nat
  m_State :: "'a Matrix"
  m_PastState :: "'a Matrix"
  m_PastOutput :: "'a Matrix"
  mLastState :: "'a Matrix"
  mLastOutput :: "'a Matrix"
  m_Gi :: "'a Matrix"
  m_Gf :: "'a Matrix"
  m_Go :: "'a Matrix"
  grdToObs :: "'a Matrix"
  grdToInputGate :: "'a Matrix"
  grdToForgetGate :: "'a Matrix"
  grdToOutputGate :: "'a Matrix"
  grdToCellWgt :: "'a Matrix"
  tanhState :: "'a Matrix"
  tanhObs :: "'a Matrix"
  m_tempMatrix :: "'a Matrix"
  m_GradientComputed :: bool
  mSlicePrevOutput :: "'a Matrix"
  mSlicePrevState :: "'a Matrix"
  m_obs_error_from_future_minibatch :: "'a Matrix"
  m_state_error_from_future_minibatch :: "'a Matrix"
  m_use_errors_from_future_minibatch :: bool
  m_DefaultState :: 'a

text \<open>
  The constructor: every matrix is empty, the dimensions are zero and the errors of the
  following minibatch are not in use; the default state is the constant
  \<open>DEFAULT_HIDDEN_ACTIVATION\<close>, which is declared outside RecurrentNodes.h. The flag
  \<open>m_GradientComputed\<close> is not initialised: it holds whatever \<open>gradientComputed\<close> says.
\<close>

definition empty_Matrix :: "'a Matrix" where
  "empty_Matrix = \<lparr>m_numRows = 0, m_columns = []\<rparr>"

definition new_LSTMNode :: "'a \<Rightarrow> bool \<Rightarrow> 'a LSTMNode" where
  "new_LSTMNode DEFAULT_HIDDEN_ACTIVATION gradientComputed =
     \<lparr>m_functionValues = empty_Matrix, m_gradientValues = empty_Matrix, m_pMBLayout = None,
      m_children = [], m_inputDim = 0, m_outputDim = 0,
      m_State = empty_Matrix, m_PastState = empty_Matrix, m_PastOutput = empty_Matrix,
      mLastState = empty_Matrix, mLastOutput = empty_Matrix,
      m_Gi = empty_Matrix, m_Gf = empty_Matrix, m_Go = empty_Matrix,
      grdToObs = empty_Matrix, grdToInputGate = empty_Matrix, grdToForgetGate = empty_Matrix,
      grdToOutputGate = empty_Matrix, grdToCellWgt = empty_Matrix,
      tanhState = empty_Matrix, tanhObs = empty_Matrix, m_tempMatrix = empty_Matrix,
      m_GradientComputed = gradientComputed,
      mSlicePrevOutput = empty_Matrix, mSlicePrevState = empty_Matrix,
      m_obs_error_from_future_minibatch = empty_Matrix,
      m_state_error_from_future_minibatch = empty_Matrix,
      m_use_errors_from_future_minibatch = False,
      m_DefaultState = DEFAULT_HIDDEN_ACTIVATION\<rparr>"

definition Inputs :: "'a LSTMNode \<Rightarrow> nat \<Rightarrow> 'a ComputationNode" where
  "Inputs n i = m_children n ! i"

text \<open>
  A \<open>for\<close> loop whose counter need not reach its bound: \<open>cond\<close> is the loop test on
  the counter and the state, \<open>next\<close> the step of the counter. The loop stops at the
  first fault of its body; a loop that runs forever has no result.
\<close>

partial_function (option) loop_while ::
  "('i \<Rightarrow> 's \<Rightarrow> bool) \<Rightarrow> ('i \<Rightarrow> 'i) \<Rightarrow> ('i \<Rightarrow> 's \<Rightarrow> 's result option) \<Rightarrow> 'i \<Rightarrow> 's \<Rightarrow>
     's result option" where
  "loop_while cond next body i s =
     (if cond i s
      then (case body i s of
              None \<Rightarrow> None
            | Some (Inl fault) \<Rightarrow> Some (Inl fault)
            | Some (Inr s') \<Rightarrow> loop_while cond next body (next i) s')
      else Some (Inr s))"

text \<open>
  The conversions between \<open>size_t\<close> and \<open>int\<close>: an \<open>int\<close> read as \<open>size_t\<close> wraps at
  64 bits, and \<open>(int) floor(t / nsamples)\<close> is the quotient cut to 32 bits.
\<close>

definition size_t_of_int :: "int \<Rightarrow> nat" where
  "size_t_of_int x = nat (x mod 2 ^ 64)"

definition utt_t_of :: "nat \<Rightarrow> nat \<Rightarrow> int" where
  "utt_t_of timeIdx nsamples = int32 (int (timeIdx div nsamples))"

text \<open>
  Modelled from the spec: the method \<open>FrameRange::Check\<close> and the slice accessors
  \<open>ValueSlice\<close>, \<open>GradientSlice\<close> and \<open>DataSlice\<close> are declared outside
  RecurrentNodes.h. A frame range names \<open>NumCols()\<close> columns starting at column
  \<open>t() * NumCols()\<close>; \<open>Check\<close> faults when this is not the explicit column range the
  caller passes, and a slice accessor returns these columns of a buffer. \<open>DataSlices\<close>
  takes the slices of several buffers one after the other.
\<close>

definition Check :: "FrameRange \<Rightarrow> nat \<Rightarrow> nat \<Rightarrow> error + FrameRange" where
  "Check fr expectedStartColumn expectedNumCols =
     (if samplesInRecurrentStep fr \<noteq> expectedNumCols \<or>
         timeIdxInSeq fr * samplesInRecurrentStep fr \<noteq> expectedStartColumn
      then Inl (LogicError ''FrameSlice: FrameRange object gives different range than original explicit code. Logic is borked.'')
      else Inr fr)"

definition DataSlice :: "'a Matrix \<Rightarrow> FrameRange \<Rightarrow> error + 'a list list" where
  "DataSlice M fr =
     ColumnSlice M (timeIdxInSeq fr * samplesInRecurrentStep fr) (samplesInRecurrentStep fr)"

fun DataSlices :: "'a Matrix list \<Rightarrow> FrameRange \<Rightarrow> error + unit" where
  "DataSlices [] fr = Inr ()"
| "DataSlices (M # Ms) fr =
     (case DataSlice M fr of Inl e \<Rightarrow> Inl e | Inr sl \<Rightarrow> DataSlices Ms fr)"


subsection \<open>GetSegInfo\<close>

text \<open>
  The flags of stream \<open>streamid\<close> at column \<open>t\<close>, with the casts of the source. The
  messages are format strings; the numbers they would print are left out.
\<close>

definition GetSegInfo :: "'a LSTMNode \<Rightarrow> nat \<Rightarrow> nat \<Rightarrow> error + MinibatchPackingFlags" where
  "GetSegInfo n t streamid =
     (case m_pMBLayout n of
        None \<Rightarrow> Inl NullDereference
      | Some L \<Rightarrow>
          if streamid \<ge> GetNumParallelSequences L
          then Inl (LogicError ''GetSegInfo: stream id %d is larger than the number of streams %d'')
          else if t \<ge> GetNumCols (m_functionValues (Inputs n 0))
          then Inl (LogicError ''GetSegInfo: time %d times is larger than the total number of observations %d'')
          else let utt_t = int32 (int (size_t_of_int (int32 (int t)) div GetNumParallelSequences L))
               in Inr (fst (GetFrame L (size_t_of_int utt_t)) ! streamid))"

subsection \<open>PrepareHistory, PrepareThisErrorsBeforeBackProp and PrepareErrors\<close>

text \<open>
  \<open>PrepareHistory\<close>; \<open>timeIdx\<close> is the parameter \<open>timeIdxInSeq\<close> of the source,
  here and below. The assertion is compiled out of release builds. The division by
  the number of streams comes first, then the two history slices are resized, the row
  count of the boundary matrix is checked, the column of the frame is taken from it, and
  the placeholder fault ends the routine: the code after it is disabled. The state is the
  pair of the two history slices, which are passed by reference.
\<close>

definition PrepareHistory ::
  "'a \<Rightarrow> nat \<Rightarrow> 'a Matrix \<Rightarrow> 'a Matrix \<Rightarrow> 'a Matrix \<Rightarrow> 'a Matrix \<Rightarrow> 'a Matrix \<Rightarrow> 'a Matrix \<Rightarrow>
     nat \<Rightarrow> 'a \<Rightarrow> MinibatchPackingFlags Matrix \<Rightarrow> ('a Matrix \<times> 'a Matrix) result" where
  "PrepareHistory u timeIdx slicePrevOutput slicePrevState output state pastOutput pastState
       nsamples initStateValue sentenceBegin =
     (let nRow = GetNumRows pastOutput in
      if nsamples = 0 then Inl (DivisionByZero, (slicePrevOutput, slicePrevState))
      else
        let utt_t = utt_t_of timeIdx nsamples;
            slicePrevOutput' =
              (if IsEmpty slicePrevOutput \<or> GetNumRows slicePrevOutput \<noteq> nRow \<or>
                  GetNumCols slicePrevOutput \<noteq> nsamples
               then Resize u nRow nsamples slicePrevOutput else slicePrevOutput);
            slicePrevState' =
              (if IsEmpty slicePrevState \<or> GetNumRows slicePrevState \<noteq> nRow \<or>
                  GetNumCols slicePrevState \<noteq> nsamples
               then Resize u nRow nsamples slicePrevState else slicePrevState)
        in if GetNumRows sentenceBegin \<noteq> nsamples
           then Inl (LogicError ''Number of rows should be the same as the number of data streams'',
                     (slicePrevOutput', slicePrevState'))
           else (case ColumnSlice sentenceBegin (size_t_of_int utt_t) 1 of
                   Inl e \<Rightarrow> Inl (e, (slicePrevOutput', slicePrevState'))
                 | Inr colBegin \<Rightarrow>
                     Inl (LogicError ''PrepareHistory: finish this'',
                          (slicePrevOutput', slicePrevState'))))"

text \<open>
  The test of \<open>PrepareThisErrorsBeforeBackProp\<close> whether stream \<open>utt_id\<close> takes the error
  of the following minibatch, in the evaluation order of \<open>&&\<close> and \<open>||\<close>, and the
  two additions it guards. \<open>PlusAssignColumn\<close> is \<open>A.ColumnSlice(i, 1) += B.ColumnSlice(i, 1)\<close>.
\<close>

definition uses_future_error ::
  "'a LSTMNode \<Rightarrow> nat \<Rightarrow> nat \<Rightarrow> nat \<Rightarrow> nat \<Rightarrow> error + bool" where
  "uses_future_error n timeIdx nT nsamples utt_id =
     (let utt_t = utt_t_of timeIdx nsamples; total_utt_t = utt_t_of nT nsamples in
      case GetSegInfo n timeIdx utt_id of
        Inl e \<Rightarrow> Inl e
      | Inr seg \<Rightarrow>
          if seg = None_flag \<and> utt_t = total_utt_t - 1 then Inr True
          else if utt_t < total_utt_t - 1 \<and> seg = None_flag
          then (case GetSegInfo n (timeIdx + nsamples) utt_id of
                  Inl e \<Rightarrow> Inl e
                | Inr seg2 \<Rightarrow> Inr (seg2 = NoInput))
          else Inr False)"

definition PlusAssignColumn :: "'a::plus Matrix \<Rightarrow> nat \<Rightarrow> 'a Matrix \<Rightarrow> 'a Matrix result" where
  "PlusAssignColumn A i B =
     (case ColumnSlice A i 1 of
        Inl e \<Rightarrow> Inl (e, A)
      | Inr to \<Rightarrow>
         (case ColumnSlice B i 1 of
            Inl e \<Rightarrow> Inl (e, A)
          | Inr frm \<Rightarrow> PlusAssign A i 1 frm))"

definition add_future_error ::
  "'a::plus LSTMNode \<Rightarrow> nat \<Rightarrow> nat \<Rightarrow> nat \<Rightarrow> 'a Matrix \<Rightarrow> 'a Matrix \<Rightarrow> nat \<Rightarrow>
     'a Matrix \<times> 'a Matrix \<Rightarrow> ('a Matrix \<times> 'a Matrix) result" where
  "add_future_error n timeIdx nT nsamples obs_error_from_future_minibatch
       state_error_from_future_minibatch utt_id errs =
     (case uses_future_error n timeIdx nT nsamples utt_id of
        Inl e \<Rightarrow> Inl (e, errs)
      | Inr use \<Rightarrow>
         if use
         then (case PlusAssignColumn (fst errs) utt_id obs_error_from_future_minibatch of
                 Inl fault \<Rightarrow> Inl (fst fault, errs)
               | Inr error' \<Rightarrow>
                  (case PlusAssignColumn (snd errs) utt_id state_error_from_future_minibatch of
                     Inl fault \<Rightarrow> Inl (fst fault, (error', snd errs))
                   | Inr stateError' \<Rightarrow> Inr (error', stateError')))
         else Inr errs)"

text \<open>
  \<open>PrepareThisErrorsBeforeBackProp\<close>: the two divisions, \<open>error += grdToPrevOutput\<close>,
  \<open>stateError = grdToPrevState\<close>, the errors of the following minibatch when they are
  in use, and the placeholder fault. The state is the pair of \<open>error\<close> and
  \<open>stateError\<close>, which are passed by reference.
\<close>

definition PrepareThisErrorsBeforeBackProp ::
  "'a::plus LSTMNode \<Rightarrow> nat \<Rightarrow> nat \<Rightarrow> 'a Matrix \<Rightarrow> 'a Matrix \<Rightarrow> 'a Matrix \<Rightarrow> 'a Matrix \<Rightarrow>
     'a Matrix \<Rightarrow> 'a Matrix \<Rightarrow> nat \<Rightarrow> MinibatchPackingFlags Matrix \<Rightarrow>
     ('a Matrix \<times> 'a Matrix) result" where
  "PrepareThisErrorsBeforeBackProp n timeIdx nT error stateError grdToPrevOutput
       grdToPrevState obs_error_from_future_minibatch state_error_from_future_minibatch
       nsamples sentenceBegin =
     (if nsamples = 0 then Inl (DivisionByZero, (error, stateError))
      else (case MatrixPlus error grdToPrevOutput of
              Inl e \<Rightarrow> Inl (e, (error, stateError))
            | Inr error1 \<Rightarrow>
               (case (if m_use_errors_from_future_minibatch n
                      then for_each [0..<nsamples]
                             (add_future_error n timeIdx nT nsamples
                                obs_error_from_future_minibatch state_error_from_future_minibatch)
                             (error1, grdToPrevState)
                      else Inr (error1, grdToPrevState)) of
                  Inl fault \<Rightarrow> Inl fault
                | Inr errs \<Rightarrow>
                    Inl (LogicError ''PrepareThisErrorsBeforeBackProp: finish this'', errs))))"

definition PrepareErrors ::
  "nat \<Rightarrow> 'a Matrix \<Rightarrow> 'a Matrix \<Rightarrow> nat \<Rightarrow> MinibatchPackingFlags Matrix \<Rightarrow>
     ('a Matrix \<times> 'a Matrix) result" where
  "PrepareErrors timeIdx errors stateError nsamples sentenceBegin =
     (if nsamples = 0 then Inl (DivisionByZero, (errors, stateError))
      else Inl (LogicError ''PrepareErrors: finish this'', (errors, stateError)))"

subsection \<open>SaveLastStateActity\<close>

text \<open>
  \<open>A.ColumnSlice(i, 1).SetValue(B.ColumnSlice(t, 1))\<close>, the copy inside the search of
  \<open>SaveLastStateActity\<close>.
\<close>

definition SetValueColumn :: "'a Matrix \<Rightarrow> nat \<Rightarrow> 'a Matrix \<Rightarrow> nat \<Rightarrow> 'a Matrix result" where
  "SetValueColumn A i B t =
     (case ColumnSlice A i 1 of
        Inl e \<Rightarrow> Inl (e, A)
      | Inr to \<Rightarrow>
         (case ColumnSlice B t 1 of
            Inl e \<Rightarrow> Inl (e, A)
          | Inr frm \<Rightarrow> SetValue A i 1 frm))"

text \<open>
  The inner loop of \<open>SaveLastStateActity\<close> walks the columns of stream \<open>i\<close> downwards
  from the last frame with an \<open>int\<close> counter and leaves at the first column without a
  flag, whose output and state become the last ones of the stream. Its state is the node
  and whether the \<open>break\<close> was taken.
\<close>

definition SaveLastStateActity_frame ::
  "nat \<Rightarrow> int \<Rightarrow> 'a LSTMNode \<times> bool \<Rightarrow> ('a LSTMNode \<times> bool) result option" where
  "SaveLastStateActity_frame i t st =
     (let n = fst st in
      case GetSegInfo n (size_t_of_int t) i of
        Inl e \<Rightarrow> Some (Inl (e, st))
      | Inr seg \<Rightarrow>
          if seg = None_flag
          then (case SetValueColumn (mLastOutput n) i (m_functionValues n) (size_t_of_int t) of
                  Inl fault \<Rightarrow> Some (Inl (fst fault, st))
                | Inr lastOutput \<Rightarrow>
                   let n1 = n\<lparr>mLastOutput := lastOutput\<rparr> in
                   (case SetValueColumn (mLastState n1) i (m_State n1) (size_t_of_int t) of
                      Inl fault \<Rightarrow> Some (Inl (fst fault, (n1, False)))
                    | Inr lastState \<Rightarrow> Some (Inr (n1\<lparr>mLastState := lastState\<rparr>, True))))
          else Some (Inr st))"

definition SaveLastStateActity_stream ::
  "nat \<Rightarrow> nat \<Rightarrow> nat \<Rightarrow> 'a LSTMNode \<Rightarrow> 'a LSTMNode result option" where
  "SaveLastStateActity_stream nT nPar i n =
     (case loop_while (\<lambda>t st. 0 \<le> t \<and> \<not> snd st) (\<lambda>t. int32 (t - int nPar))
             (SaveLastStateActity_frame i) (int32 (int nT - int nPar + int i)) (n, False) of
        None \<Rightarrow> None
      | Some (Inl fault) \<Rightarrow> Some (Inl (fst fault, fst (snd fault)))
      | Some (Inr st) \<Rightarrow> Some (Inr (fst st)))"

definition SaveLastStateActity :: "'a \<Rightarrow> 'a LSTMNode \<Rightarrow> 'a LSTMNode result option" where
  "SaveLastStateActity u n =
     (let nT = GetNumCols (m_functionValues (Inputs n 0));
          outputDim = GetNumRows (m_functionValues (Inputs n 1))
      in case m_pMBLayout n of
           None \<Rightarrow> Some (Inl (NullDereference, n))
         | Some L \<Rightarrow>
            let nPar = GetNumParallelSequences L;
                n1 = n\<lparr>mLastOutput := Resize u outputDim nPar (mLastOutput n),
                       mLastState := Resize u outputDim nPar (mLastState n)\<rparr>
            in loop_while (\<lambda>i s. i < nPar) Suc (SaveLastStateActity_stream nT nPar) 0 n1)"

subsection \<open>EvaluateThisNode of the LSTM node\<close>

text \<open>
  One frame of the forward loop: the slices of the frame are taken, \<open>PrepareHistory\<close>
  fills the two history slices of the node, and \<open>EvaluateThisNodeS\<close> computes the gates,
  the state and the output of the frame. \<open>EvaluateThisNodeS\<close> is arithmetic on floats
  (products, sigmoid, tanh); it is a parameter of the model, so that what is proved holds
  whatever it computes.
\<close>

definition LSTM_EvaluateThisNode_frame ::
  "'a \<Rightarrow> (nat \<Rightarrow> 'a LSTMNode \<Rightarrow> 'a LSTMNode result) \<Rightarrow> MBLayout \<Rightarrow> nat \<Rightarrow> 'a LSTMNode \<Rightarrow>
     'a LSTMNode result option" where
  "LSTM_EvaluateThisNode_frame u EvaluateThisNodeS L timeIdx n =
     (let nPar = GetNumParallelSequences L;
          frameRange = \<lparr>timeIdxInSeq = timeIdx, samplesInRecurrentStep = nPar\<rparr>
      in case Check frameRange timeIdx nPar of
           Inl e \<Rightarrow> Some (Inl (e, n))
         | Inr fr \<Rightarrow>
            (case DataSlices [m_functionValues (Inputs n 0), m_functionValues n, m_State n,
                              m_Gi n, m_Gf n, m_Go n, tanhState n, tanhObs n] fr of
               Inl e \<Rightarrow> Some (Inl (e, n))
             | Inr slices \<Rightarrow>
                (case PrepareHistory u timeIdx (mSlicePrevOutput n) (mSlicePrevState n)
                        (m_functionValues n) (m_State n) (m_PastOutput n) (m_PastState n) nPar
                        (m_DefaultState n) (m_sentenceBoundaryFlags L) of
                   Inl fault \<Rightarrow>
                     Some (Inl (fst fault, n\<lparr>mSlicePrevOutput := fst (snd fault),
                                             mSlicePrevState := snd (snd fault)\<rparr>))
                 | Inr hist \<Rightarrow>
                     Some (EvaluateThisNodeS timeIdx
                             (n\<lparr>mSlicePrevOutput := fst hist, mSlicePrevState := snd hist\<rparr>)))))"

text \<open>
  The head of \<open>EvaluateThisNode\<close>: the output and the six gate buffers take the size
  of the minibatch and are filled with NaN (\<open>nan\<close>); then the carried state and the
  carried output are sized for the number of streams when they are empty or of another
  width, the state being filled with the default state.
\<close>

definition reset_activations :: "'a \<Rightarrow> 'a LSTMNode \<Rightarrow> 'a LSTMNode" where
  "reset_activations nan n =
     (let nT = GetNumCols (m_functionValues (Inputs n 0));
          outputDim = GetNumRows (m_functionValues (Inputs n 1))
      in n\<lparr>m_functionValues := ConstMatrix outputDim nT nan,
           m_State := ConstMatrix outputDim nT nan,
           m_Gi := ConstMatrix outputDim nT nan,
           m_Gf := ConstMatrix outputDim nT nan,
           m_Go := ConstMatrix outputDim nT nan,
           tanhState := ConstMatrix outputDim nT nan,
           tanhObs := ConstMatrix outputDim nT nan\<rparr>)"

definition size_carried_state :: "'a \<Rightarrow> nat \<Rightarrow> nat \<Rightarrow> 'a LSTMNode \<Rightarrow> 'a LSTMNode" where
  "size_carried_state u outputDim nPar n =
     (let n1 = (if IsEmpty (m_PastState n) \<or> GetNumCols (m_PastState n) \<noteq> nPar
                then n\<lparr>m_PastState := ConstMatrix outputDim nPar (m_DefaultState n)\<rparr>
                else n)
      in if IsEmpty (m_PastOutput n1) \<or> GetNumCols (m_PastOutput n1) \<noteq> nPar
         then n1\<lparr>m_PastOutput := Resize u outputDim nPar (m_PastOutput n1)\<rparr>
         else n1)"

text \<open>
  \<open>EvaluateThisNode\<close>: after its head the frames are evaluated from column 0 upwards
  in steps of the number of streams, the last state is saved, and the flag that guards the
  backward sweep is cleared. The counter is a \<open>size_t\<close>; it stays far below its wrap.
\<close>

definition LSTM_EvaluateThisNode ::
  "'a \<Rightarrow> 'a \<Rightarrow> (nat \<Rightarrow> 'a LSTMNode \<Rightarrow> 'a LSTMNode result) \<Rightarrow> 'a LSTMNode \<Rightarrow>
     'a LSTMNode result option" where
  "LSTM_EvaluateThisNode u nan EvaluateThisNodeS n =
     (let nT = GetNumCols (m_functionValues (Inputs n 0));
          outputDim = GetNumRows (m_functionValues (Inputs n 1));
          n1 = reset_activations nan n
      in case m_pMBLayout n1 of
           None \<Rightarrow> Some (Inl (NullDereference, n1))
         | Some L \<Rightarrow>
            (case loop_while (\<lambda>t s. t < nT) (\<lambda>t. t + GetNumParallelSequences L)
                    (LSTM_EvaluateThisNode_frame u EvaluateThisNodeS L) 0
                    (size_carried_state u outputDim (GetNumParallelSequences L) n1) of
               None \<Rightarrow> None
             | Some (Inl fault) \<Rightarrow> Some (Inl fault)
             | Some (Inr n4) \<Rightarrow>
                (case SaveLastStateActity u n4 of
                   None \<Rightarrow> None
                 | Some (Inl fault) \<Rightarrow> Some (Inl fault)
                 | Some (Inr n5) \<Rightarrow> Some (Inr (n5\<lparr>m_GradientComputed := False\<rparr>)))))"

subsection \<open>ComputeInputPartial of the LSTM node\<close>

text \<open>
  The state of the backward sweep: the node and the locals \<open>stateError\<close>,
  \<open>grdToPrevOutput\<close> and \<open>grdToPrevState\<close>. \<open>GradientSlice_update\<close> writes the
  local \<open>error\<close>, a view of the frame's columns of the node gradient, back into it.
\<close>

type_synonym 'a sweep = "'a LSTMNode \<times> 'a Matrix \<times> 'a Matrix \<times> 'a Matrix"

definition GradientSlice_update :: "'a LSTMNode \<Rightarrow> FrameRange \<Rightarrow> 'a Matrix \<Rightarrow> 'a LSTMNode" where
  "GradientSlice_update n fr error =
     n\<lparr>m_gradientValues :=
         UpdateSlice (m_gradientValues n) (timeIdxInSeq fr * samplesInRecurrentStep fr)
           (samplesInRecurrentStep fr) (\<lambda>c old. m_columns error ! c)\<rparr>"

text \<open>
  The part of a frame of the sweep that follows \<open>PrepareThisErrorsBeforeBackProp\<close>:
  the errors towards the previous frame are cleared, the history is prepared, the gate
  gradients are computed, the frame's slice of \<open>grdToObs\<close> is written, and the errors
  are prepared for the next frame. \<open>ComputeInputGradientWrtGates\<close> is arithmetic on
  floats and is a parameter of the model; it receives the frame, the error of the frame
  and the state of the sweep, and returns the new state and the local \<open>grdToObsSlice\<close>.
\<close>

definition BackwardFrame_rest ::
  "'a \<Rightarrow> (nat \<Rightarrow> 'a Matrix \<Rightarrow> 'a sweep \<times> 'a Matrix \<Rightarrow> ('a sweep \<times> 'a Matrix) result) \<Rightarrow>
     MBLayout \<Rightarrow> nat \<Rightarrow> FrameRange \<Rightarrow> nat \<Rightarrow> 'a Matrix \<Rightarrow> 'a::zero sweep \<Rightarrow> 'a sweep result" where
  "BackwardFrame_rest u ComputeInputGradientWrtGates L outputDim fr timeIdx error st =
     (let n = fst st; stateError = fst (snd st); nPar = GetNumParallelSequences L;
          grdToPrevOutput = ConstMatrix outputDim nPar 0;
          grdToPrevState = ConstMatrix outputDim nPar 0
      in case PrepareHistory u timeIdx (mSlicePrevOutput n) (mSlicePrevState n)
                (m_functionValues n) (m_State n) (m_PastOutput n) (m_PastState n) nPar
                (m_DefaultState n) (m_sentenceBoundaryFlags L) of
           Inl fault \<Rightarrow>
             Inl (fst fault, (n\<lparr>mSlicePrevOutput := fst (snd fault),
                                mSlicePrevState := snd (snd fault)\<rparr>,
                              stateError, grdToPrevOutput, grdToPrevState))
         | Inr hist \<Rightarrow>
            (case ComputeInputGradientWrtGates timeIdx error
                    ((n\<lparr>mSlicePrevOutput := fst hist, mSlicePrevState := snd hist\<rparr>,
                      stateError, grdToPrevOutput, grdToPrevState),
                     \<lparr>m_numRows = 0, m_columns = []\<rparr>) of
               Inl fault \<Rightarrow> Inl (fst fault, fst (snd fault))
             | Inr gates \<Rightarrow>
                let st1 = fst gates; grdToObsSlice = snd gates; n1 = fst st1 in
                (case DataSlice (grdToObs n1) fr of
                   Inl e \<Rightarrow> Inl (e, st1)
                 | Inr view \<Rightarrow>
                    (case SetValue (grdToObs n1) (timeIdxInSeq fr * samplesInRecurrentStep fr)
                            (samplesInRecurrentStep fr) (m_columns grdToObsSlice) of
                       Inl fault \<Rightarrow> Inl (fst fault, st1)
                     | Inr G \<Rightarrow>
                        (case PrepareErrors timeIdx (fst (snd (snd st1))) (snd (snd (snd st1)))
                                nPar (m_sentenceBoundaryFlags L) of
                           Inl fault \<Rightarrow>
                             Inl (fst fault, (n1\<lparr>grdToObs := G\<rparr>, fst (snd st1), snd fault))
                         | Inr errs \<Rightarrow> Inr (n1\<lparr>grdToObs := G\<rparr>, fst (snd st1), errs))))))"

text \<open>
  One frame of the sweep, at the \<open>int\<close> counter \<open>t\<close>: the slices of the frame are
  taken, the last of them the frame's view \<open>error\<close> of the node gradient, and
  \<open>PrepareThisErrorsBeforeBackProp\<close> adds the error of the following frame onto it.
\<close>

definition BackwardFrame ::
  "'a \<Rightarrow> (nat \<Rightarrow> 'a Matrix \<Rightarrow> 'a sweep \<times> 'a Matrix \<Rightarrow> ('a sweep \<times> 'a Matrix) result) \<Rightarrow>
     MBLayout \<Rightarrow> nat \<Rightarrow> nat \<Rightarrow> int \<Rightarrow> 'a::{plus,zero} sweep \<Rightarrow> 'a sweep result option" where
  "BackwardFrame u ComputeInputGradientWrtGates L nT outputDim t st =
     (let n = fst st; stateError = fst (snd st);
          grdToPrevOutput = fst (snd (snd st)); grdToPrevState = snd (snd (snd st));
          nPar = GetNumParallelSequences L; timeIdx = size_t_of_int t;
          frameRange = \<lparr>timeIdxInSeq = timeIdx, samplesInRecurrentStep = nPar\<rparr>
      in case Check frameRange timeIdx nPar of
           Inl e \<Rightarrow> Some (Inl (e, st))
         | Inr fr \<Rightarrow>
            (case DataSlices [m_functionValues (Inputs n 0), m_functionValues n, m_State n,
                              m_Gi n, m_Gf n, m_Go n, tanhState n, tanhObs n] fr of
               Inl e \<Rightarrow> Some (Inl (e, st))
             | Inr slices \<Rightarrow>
                (case DataSlice (m_gradientValues n) fr of
                   Inl e \<Rightarrow> Some (Inl (e, st))
                 | Inr error \<Rightarrow>
                    (case PrepareThisErrorsBeforeBackProp n timeIdx nT
                            \<lparr>m_numRows = GetNumRows (m_gradientValues n), m_columns = error\<rparr>
                            stateError grdToPrevOutput grdToPrevState
                            (m_obs_error_from_future_minibatch n)
                            (m_state_error_from_future_minibatch n) nPar
                            (m_sentenceBoundaryFlags L) of
                       Inl fault \<Rightarrow>
                         Some (Inl (fst fault,
                                    (GradientSlice_update n fr (fst (snd fault)), snd (snd fault),
                                     grdToPrevOutput, grdToPrevState)))
                     | Inr errs \<Rightarrow>
                         Some (BackwardFrame_rest u ComputeInputGradientWrtGates L outputDim fr
                                 timeIdx (fst errs)
                                 (GradientSlice_update n fr (fst errs), snd errs,
                                  grdToPrevOutput, grdToPrevState))))))"

text \<open>
  The backward sweep, the body of \<open>if (m_GradientComputed == false)\<close>: the size check,
  the five cached gradient blocks set to zero in the size of the value buffer of their
  input (\<open>reset_gradients\<close>), the locals, the frames from the last one downwards with
  an \<open>int\<close> counter, and at the end the errors kept for the preceding minibatch and the
  flag.
\<close>

definition reset_gradients :: "'a::zero LSTMNode \<Rightarrow> 'a LSTMNode" where
  "reset_gradients n =
     (let zeros = (\<lambda>i. ConstMatrix (GetNumRows (m_functionValues (Inputs n i)))
                          (GetNumCols (m_functionValues (Inputs n i))) 0)
      in n\<lparr>grdToObs := zeros 0,
           grdToInputGate := zeros 1,
           grdToForgetGate := zeros 2,
           grdToOutputGate := zeros 3,
           grdToCellWgt := zeros 4\<rparr>)"

definition BackwardSweep ::
  "'a \<Rightarrow> (nat \<Rightarrow> 'a Matrix \<Rightarrow> 'a sweep \<times> 'a Matrix \<Rightarrow> ('a sweep \<times> 'a Matrix) result) \<Rightarrow>
     'a::{plus,zero} LSTMNode \<Rightarrow> 'a LSTMNode result option" where
  "BackwardSweep u ComputeInputGradientWrtGates n =
     (let nT = GetNumCols (m_functionValues (Inputs n 0));
          outputDim = GetNumRows (m_functionValues (Inputs n 1))
      in if GetNumCols (m_functionValues n) \<noteq> GetNumCols (m_gradientValues n) \<or>
            GetNumRows (m_functionValues n) \<noteq> GetNumRows (m_gradientValues n)
         then Some (Inl (RuntimeError ''LSTMNode::GradientValue size doesn't match to the function value size'', n))
         else
           let n1 = reset_gradients n
           in case m_pMBLayout n1 of
                None \<Rightarrow> Some (Inl (NullDereference, n1))
              | Some L \<Rightarrow>
                 let nPar = GetNumParallelSequences L in
                 (case loop_while (\<lambda>t st. 0 \<le> t) (\<lambda>t. int32 (t - int nPar))
                         (BackwardFrame u ComputeInputGradientWrtGates L nT outputDim)
                         (int32 (int nT - int nPar))
                         (n1, ConstMatrix outputDim nPar u, ConstMatrix outputDim nPar 0,
                          ConstMatrix outputDim nPar 0) of
                    None \<Rightarrow> None
                  | Some (Inl fault) \<Rightarrow> Some (Inl (fst fault, fst (snd fault)))
                  | Some (Inr st) \<Rightarrow>
                      Some (Inr ((fst st)
                        \<lparr>m_obs_error_from_future_minibatch := fst (snd (snd st)),
                         m_state_error_from_future_minibatch := snd (snd (snd st)),
                         m_GradientComputed := True\<rparr>))))"

text \<open>
  The five \<open>if (inputIndex == ...)\<close> blocks that end \<open>ComputeInputPartial\<close>: the cached
  block of the input is copied into an empty gradient of the input and added onto any
  other.
\<close>

definition cached_gradient :: "'a LSTMNode \<Rightarrow> nat \<Rightarrow> 'a Matrix" where
  "cached_gradient n inputIndex =
     (if inputIndex = 0 then grdToObs n
      else if inputIndex = 1 then grdToInputGate n
      else if inputIndex = 2 then grdToForgetGate n
      else if inputIndex = 3 then grdToOutputGate n
      else grdToCellWgt n)"

definition set_input_gradient :: "'a LSTMNode \<Rightarrow> nat \<Rightarrow> 'a Matrix \<Rightarrow> 'a LSTMNode" where
  "set_input_gradient n inputIndex G =
     n\<lparr>m_children := (m_children n)[inputIndex := (Inputs n inputIndex)\<lparr>m_gradientValues := G\<rparr>]\<rparr>"



subsection \<open>SaveToFile and LoadFromFile of the LSTM node\<close>



subsection \<open>UnitTest of the LSTM node\<close>

text \<open>
  The set-up of \<open>UnitTest\<close> up to its call of \<open>EvaluateThisNode\<close>: a layout of one
  stream over three frames whose sequence starts at frame 1, the five inputs resized and
  filled with 0.1 (\<open>tenth\<close>), the output buffer resized to 3 by 3, and the default state
  set to 0.0 (\<open>zero\<close>).
\<close>

definition UnitTest_setup :: "'a \<Rightarrow> 'a \<Rightarrow> 'a \<Rightarrow> 'a LSTMNode \<Rightarrow> 'a LSTMNode" where
  "UnitTest_setup u tenth zero n =
     (let nT = 3; nInput = 2; nHidden = 3; nOutput = 3;
          input = (\<lambda>i rows cols. (Inputs n i)\<lparr>m_functionValues := ConstMatrix rows cols tenth\<rparr>)
      in n\<lparr>m_pMBLayout := Some (SetFlag (new_MBLayout 1 nT) 0 1 SequenceStart),
           m_children := [input 0 nInput nT,
                          input 1 nHidden (nInput + nOutput + 2),
                          input 2 nHidden (nInput + nHidden + 2),
                          input 3 nOutput (nInput + nHidden + 2),
                          input 4 nOutput (nHidden + nInput + 1)],
           m_functionValues := Resize u nOutput nT (m_functionValues n),
           m_DefaultState := zero\<rparr>)"

section \<open>Functions of the proofs\<close>

text \<open>
  The countdown of stream \<open>j\<close> as the second inner loop tests it at frame \<open>i\<close>, read off
  the base layout: a boundary flag sets it to the step, a frame without features to zero,
  any other frame takes one off the countdown of the frame before (zero before frame 0).
\<close>

fun countdown :: "MBLayout \<Rightarrow> MinibatchPackingFlags \<Rightarrow> int \<Rightarrow> nat \<Rightarrow> nat \<Rightarrow> int" where
  "countdown L B S j 0 =
     (if Is2 L j 0 B then S else 0)"
| "countdown L B S j (Suc i) =
     (if Is2 L j (Suc i) B then S
      else if Is2 L j (Suc i) NoFeature then 0
      else countdown L B S j i - 1)"

text \<open>
  The loop invariant of \<open>SetMBLayout\<close>: the layout \<open>sh\<close> is the base layout \<open>L\<close> with
  exactly the cells \<open>F\<close> forced to the boundary flag.
\<close>

definition same_dims :: "MBLayout \<Rightarrow> MBLayout \<Rightarrow> bool" where
  "same_dims A L \<longleftrightarrow>
     m_numRows (m_sentenceBoundaryFlags A) = m_numRows (m_sentenceBoundaryFlags L) \<and>
     length (m_columns (m_sentenceBoundaryFlags A)) = length (m_columns (m_sentenceBoundaryFlags L)) \<and>
     length (m_minibatchPackingFlags A) = length (m_minibatchPackingFlags L)"

definition marked ::
  "MBLayout \<Rightarrow> MBLayout \<Rightarrow> MinibatchPackingFlags \<Rightarrow> (nat \<Rightarrow> nat \<Rightarrow> bool) \<Rightarrow> bool" where
  "marked sh L B F \<longleftrightarrow>
     wf_MBLayout sh \<and> same_dims sh L \<and>
     (\<forall>j i. elem (m_sentenceBoundaryFlags sh) j i =
        (if F j i then (elem (m_sentenceBoundaryFlags L) j i AND NoLabel) OR B
         else elem (m_sentenceBoundaryFlags L) j i)) \<and>
     (\<forall>t. m_minibatchPackingFlags sh ! t =
        (if \<exists>j. F j t then m_minibatchPackingFlags L ! t OR B else m_minibatchPackingFlags L ! t))"

text \<open>
  The condition under which a stream passes its gradient on, and the result of the
  scatter: column \<open>dstart + c\<close> of \<open>G\<close> receives column \<open>tstart + c\<close> of \<open>Grad\<close>
  for the selected \<open>c < n\<close>.
\<close>

definition permits :: "DelayedKind \<Rightarrow> MinibatchPackingFlags \<Rightarrow> bool" where
  "permits k c \<longleftrightarrow> \<not> has_flag c (SequenceStart_or_End k) \<and> \<not> has_flag c NoFeature"

definition scatter_add ::
  "nat \<Rightarrow> nat \<Rightarrow> nat \<Rightarrow> (nat \<Rightarrow> bool) \<Rightarrow> 'a::plus Matrix \<Rightarrow> 'a Matrix \<Rightarrow> 'a Matrix" where
  "scatter_add dstart tstart n sel G Grad =
     UpdateSlice G dstart n
       (\<lambda>c old. if sel c then map2 (+) old (m_columns Grad ! (tstart + c)) else old)"

text \<open>
  What a frame of the forward pass writes. \<open>sized_like\<close> is the output buffer after
  the size test at the head of \<open>EvaluateThisNodeSRP\<close>. \<open>stream_col\<close> is the column the
  stream loop writes for stream \<open>i\<close>, \<open>frame_col\<close> the column either branch writes,
  and \<open>node_col\<close> the same for the members of a node: the initial activation where the
  frame and the stream carry the boundary flag, the input column of the delayed frame
  where the delayed index lies in the input, the carry column at the wrapped index where
  it does not.
\<close>

definition sized_like :: "'a \<Rightarrow> 'a Matrix \<Rightarrow> 'a Matrix \<Rightarrow> 'a Matrix" where
  "sized_like u X F =
     (if GetNumRows F \<noteq> GetNumRows X \<or> GetNumCols F \<noteq> GetNumCols X
      then Resize u (GetNumRows X) (GetNumCols X) F else F)"

definition stream_col ::
  "DelayedKind \<Rightarrow> int \<Rightarrow> int \<Rightarrow> 'a Matrix \<Rightarrow> 'a Matrix \<Rightarrow> 'a \<Rightarrow> MinibatchPackingFlags list \<Rightarrow>
     nat \<Rightarrow> nat \<Rightarrow> 'a list" where
  "stream_col k delayedIndex d D X init flags rows i =
     (if has_flag (flags ! i) (SequenceStart_or_End k) then replicate rows init
      else if delayedIndex < 0 \<or> delayedIndex \<ge> int (GetNumCols X)
      then m_columns D ! (nat d + i) else m_columns X ! (nat d + i))"

definition frame_col ::
  "DelayedKind \<Rightarrow> int \<Rightarrow> 'a \<Rightarrow> 'a Matrix \<Rightarrow> 'a Matrix \<Rightarrow> MinibatchPackingFlags list \<times> MinibatchPackingFlags \<Rightarrow>
     nat \<Rightarrow> nat \<Rightarrow> nat \<Rightarrow> 'a list" where
  "frame_col k S init X D fr t mNbr i =
     (if has_flag (snd fr) (SequenceStart_or_End k) \<and> has_flag (fst fr ! i) (SequenceStart_or_End k)
      then replicate (GetNumRows X) init
      else if delayedIndex_of k t S mNbr < 0 \<or> delayedIndex_of k t S mNbr \<ge> int (GetNumCols X)
      then m_columns D ! (nat (int32 (float_of_int (delayedIndex_of k t S mNbr) mod
                                      float_of_int (int (GetNumCols D)))) + i)
      else m_columns X ! (nat (delayedIndex_of k t S mNbr) + i))"

definition node_col ::
  "DelayedKind \<Rightarrow> 'a DelayedValueNodeBase \<Rightarrow> 'a Matrix \<Rightarrow> nat \<Rightarrow> nat \<Rightarrow> nat \<Rightarrow> 'a list" where
  "node_col k n X mNbr t i =
     frame_col k (m_timeStep n) (m_initialActivationValue n) X (m_delayedActivation n)
       (GetFrame (m_pShiftedMBLayout n) t) t mNbr i"

section \<open>Sample minibatches\<close>

text \<open>
  One stream over three frames whose sequence starts at frame 1 (the layout of the unit
  test of the LSTM node).
\<close>

definition layout_start_at_1 :: MBLayout where
  "layout_start_at_1 =
     \<lparr>m_sentenceBoundaryFlags = \<lparr>m_numRows = 1, m_columns = [[0], [1], [0]]\<rparr>,
      m_minibatchPackingFlags = [0, 1, 0]\<rparr>"

text \<open>
  Two streams over five frames. Stream 0 starts at frame 0 and has no input at frame 2;
  stream 1 starts at frame 1, where it also has no label.
\<close>

definition layout_two_streams :: MBLayout where
  "layout_two_streams =
     \<lparr>m_sentenceBoundaryFlags =
        \<lparr>m_numRows = 2, m_columns = [[1, 0], [0, 9], [12, 0], [0, 0], [0, 0]]\<rparr>,
      m_minibatchPackingFlags = [1, 9, 12, 0, 0]\<rparr>"

text \<open>
  Two streams over five frames, each holding one whole utterance: both sequences end at
  the last frame. On it stands a future-value node of step 2.
\<close>

definition layout_whole_utterances :: MBLayout where
  "layout_whole_utterances =
     \<lparr>m_sentenceBoundaryFlags =
        \<lparr>m_numRows = 2, m_columns = [[0, 0], [0, 0], [0, 0], [0, 0], [2, 2]]\<rparr>,
      m_minibatchPackingFlags = [0, 0, 0, 0, 2]\<rparr>"

definition sample_future_node :: "int DelayedValueNodeBase" where
  "sample_future_node =
     state_of (SetMBLayout FutureValue (new_DelayedValueNodeBase 0 2 10 2) layout_whole_utterances)"

text \<open>A gradient buffer of two streams over two frames.\<close>

definition sample_gradient :: "int Matrix" where
  "sample_gradient = \<lparr>m_numRows = 2, m_columns = [[1, 2], [3, 4], [5, 6], [7, 8]]\<rparr>"

text \<open>
  An input of two streams over five frames, and a past-value node of step 1 with initial
  activation 7 on which the two-stream layout is installed.
\<close>

definition sample_input :: "int Matrix" where
  "sample_input = \<lparr>m_numRows = 2, m_columns =
     [[10, 11], [20, 21], [30, 31], [40, 41], [50, 51], [60, 61], [70, 71], [80, 81], [90, 91], [100, 101]]\<rparr>"

definition sample_past_node :: "int DelayedValueNodeBase" where
  "sample_past_node =
     state_of (SetMBLayout PastValue (new_DelayedValueNodeBase 7 2 10 1) layout_two_streams)"








section \<open>Properties\<close>

subsection \<open>Step size check\<close>

text \<open>
  C9. A node whose step size is zero or negative cannot install a layout: SetMBLayout
  ends in a LogicError and the node, with both of its layouts, is as it was before the
  call. SetTimeStep refuses every step that is zero or negative with a LogicError as
  well, leaving the node as it was.
\<close>

theorem SetMBLayout_rejects_nonpositive_step:
  "(m_timeStep n \<le> 0 \<longrightarrow>
      SetMBLayout k n pMBLayout = Inl (LogicError ''timeStep should be 1 or larger'', n)) \<and>
   (val \<le> 0 \<longrightarrow> SetTimeStep n val = Inl (LogicError ''timeStep must be > 0.'', n))"
  by (simp add: SetMBLayout_def SetTimeStep_def)

text \<open>
  The theorem at a node constructed with step 0, and at the step -1 given to SetTimeStep.
\<close>

theorem SetMBLayout_rejects_nonpositive_step_witness:
  "m_timeStep (new_DelayedValueNodeBase (0::int) 1 1 0) \<le> 0 \<and>
   SetMBLayout FutureValue (new_DelayedValueNodeBase (0::int) 1 1 0) layout_start_at_1 =
     Inl (LogicError ''timeStep should be 1 or larger'', new_DelayedValueNodeBase (0::int) 1 1 0) \<and>
   (-1::int) \<le> 0 \<and>
   SetTimeStep (new_DelayedValueNodeBase (0::int) 1 1 0) (-1) =
     Inl (LogicError ''timeStep must be > 0.'', new_DelayedValueNodeBase (0::int) 1 1 0)"
proof -
  have h: "m_timeStep (new_DelayedValueNodeBase (0::int) 1 1 0) \<le> 0"
    by code_simp
  show ?thesis
    using SetMBLayout_rejects_nonpositive_step
      [of "new_DelayedValueNodeBase (0::int) 1 1 0" FutureValue layout_start_at_1 "-1"] h
    by simp
qed

subsection \<open>The shifted layout\<close>

lemma SetElem_numRows [simp]: "m_numRows (SetElem M i j v) = m_numRows M"
  by (simp add: SetElem_def)

lemma SetElem_length [simp]: "length (m_columns (SetElem M i j v)) = length (m_columns M)"
  by (simp add: SetElem_def)

lemma SetElem_wf: "wf_Matrix M \<Longrightarrow> wf_Matrix (SetElem M i j v)"
  by (cases "j < length (m_columns M)")
     (auto simp: wf_Matrix_def SetElem_def list_all_length nth_list_update)

lemma elem_SetElem:
  "wf_Matrix M \<Longrightarrow> i < m_numRows M \<Longrightarrow> j < length (m_columns M) \<Longrightarrow>
   elem (SetElem M i j v) i' j' = (if i' = i \<and> j' = j then v else elem M i' j')"
  by (auto simp: wf_Matrix_def SetElem_def elem_def list_all_length nth_list_update)

lemma has_flag_OR: "has_flag x (a OR b) \<longleftrightarrow> has_flag x a \<or> has_flag x b"
  by (simp add: has_flag_def bit.conj_disj_distrib or_eq_0_iff)

lemma has_flag_mono: "c AND m = c \<Longrightarrow> has_flag c f \<Longrightarrow> has_flag m f"
  unfolding has_flag_def
  by (metis and.assoc and_zero_eq)

lemma force_cell_props:
  assumes "wf_MBLayout sh" "j < GetNumParallelSequences sh" "i < GetSize sh" "B \<noteq> 0"
  defines "sh' \<equiv> SetFlag (Mask sh j i NoLabel) j i B"
  shows "wf_MBLayout sh'" "same_dims sh' sh"
    "elem (m_sentenceBoundaryFlags sh') j' i' =
       (if j' = j \<and> i' = i then (elem (m_sentenceBoundaryFlags sh) j i AND NoLabel) OR B
        else elem (m_sentenceBoundaryFlags sh) j' i')"
    "m_minibatchPackingFlags sh' = (m_minibatchPackingFlags sh)[i := m_minibatchPackingFlags sh ! i OR B]"
  using assms
  by (auto simp: wf_MBLayout_def same_dims_def SetFlag_def Mask_def None_flag_def GetNumCols_def
      GetNumRows_def GetNumParallelSequences_def GetSize_def SetElem_wf elem_SetElem)

lemma mark_step_marked:
  assumes m: "marked (fst st) L B F" and nF: "\<not> F j i" and j: "j < GetNumParallelSequences L"
    and i: "i < GetSize L" and B: "B \<noteq> 0"
  shows "marked (fst (mark_step B i st j)) L B (\<lambda>j' t. F j' t \<or> (t = i \<and> j' = j \<and> snd st ! j > 0))"
    and "snd (mark_step B i st j) = (snd st)[j := snd st ! j - 1]"
proof -
  let ?sh = "fst st"
  from m have wf: "wf_MBLayout ?sh" and sd: "same_dims ?sh L"
    by (simp_all add: marked_def)
  from sd j i have j': "j < GetNumParallelSequences ?sh" and i': "i < GetSize ?sh"
    by (simp_all add: same_dims_def GetNumParallelSequences_def GetNumRows_def GetSize_def)
  note fc = force_cell_props[OF wf j' i' B]
  show "snd (mark_step B i st j) = (snd st)[j := snd st ! j - 1]"
    by (simp add: mark_step_def Let_def)
  show "marked (fst (mark_step B i st j)) L B (\<lambda>j' t. F j' t \<or> (t = i \<and> j' = j \<and> snd st ! j > 0))"
  proof (cases "snd st ! j > 0")
    case False
    with m show ?thesis by (simp add: mark_step_def Let_def)
  next
    case True
    have sd': "same_dims (SetFlag (Mask ?sh j i NoLabel) j i B) L"
      using fc(2) sd by (simp add: same_dims_def)
    have il: "i < length (m_minibatchPackingFlags ?sh)"
      using i' by (simp add: GetSize_def)
    from True m nF show ?thesis
      unfolding marked_def mark_step_def Let_def
      apply (simp add: fc(1) sd' fc(3) fc(4))
      apply (intro conjI allI impI)
      apply (auto simp: nth_list_update il or.assoc)
      done
  qed
qed

lemma mark_loop_marked:
  assumes m: "marked sh L B F" and nF: "\<forall>j. \<not> F j i" and n: "n \<le> GetNumParallelSequences L"
    and i: "i < GetSize L" and B: "B \<noteq> 0" and len: "length nrl = GetNumParallelSequences L"
  shows "marked (fst (foldl (mark_step B i) (sh, nrl) [0..<n])) L B
           (\<lambda>j' t. F j' t \<or> (t = i \<and> j' < n \<and> nrl ! j' > 0)) \<and>
         length (snd (foldl (mark_step B i) (sh, nrl) [0..<n])) = length nrl \<and>
         (\<forall>j<length nrl. snd (foldl (mark_step B i) (sh, nrl) [0..<n]) ! j =
             (if j < n then nrl ! j - 1 else nrl ! j))"
  using n
proof (induction n)
  case 0
  with m show ?case by simp
next
  case (Suc n)
  let ?st = "foldl (mark_step B i) (sh, nrl) [0..<n]"
  let ?F = "\<lambda>j' t. F j' t \<or> (t = i \<and> j' < n \<and> nrl ! j' > 0)"
  from Suc have IH: "marked (fst ?st) L B ?F" "length (snd ?st) = length nrl"
    "\<forall>j<length nrl. snd ?st ! j = (if j < n then nrl ! j - 1 else nrl ! j)"
    and n: "n < GetNumParallelSequences L"
    by simp_all
  have nFn: "\<not> ?F n i" using nF by simp
  have step: "foldl (mark_step B i) (sh, nrl) [0..<Suc n] = mark_step B i ?st n"
    by simp
  note ms = mark_step_marked[OF IH(1) nFn n i B]
  have eqn: "snd ?st ! n = nrl ! n" using IH(3) n len by simp
  show ?case
    unfolding step
    apply (intro conjI)
    subgoal
      using ms(1) apply (rule back_subst[where P="marked _ L B"])
      apply (intro ext)
      apply (auto simp: less_Suc_eq eqn)
      done
    subgoal by (simp add: ms(2) IH(2))
    subgoal using IH(2,3) by (auto simp: ms(2) nth_list_update less_Suc_eq)
    done
qed

lemma reset_loop:
  assumes "n \<le> length nrl"
  shows "length (foldl (reset_step L B S i) nrl [0..<n]) = length nrl \<and>
         (\<forall>j<length nrl. foldl (reset_step L B S i) nrl [0..<n] ! j =
            (if j < n then (if Is2 L j i B then S else if Is2 L j i NoFeature then 0 else nrl ! j)
             else nrl ! j))"
  using assms
proof (induction n)
  case 0
  show ?case by simp
next
  case (Suc n)
  then show ?case
    by (auto simp: reset_step_def nth_list_update less_Suc_eq)
qed

lemma consistent_cell:
  assumes "wf_MBLayout L" "consistent_MBLayout L" "i < GetSize L" "j < GetNumParallelSequences L"
  shows "elem (m_sentenceBoundaryFlags L) j i AND m_minibatchPackingFlags L ! i =
         elem (m_sentenceBoundaryFlags L) j i"
proof -
  have il: "i < length (m_columns (m_sentenceBoundaryFlags L))"
    using assms(1,3) by (simp add: wf_MBLayout_def GetNumCols_def GetSize_def)
  then have "length (m_columns (m_sentenceBoundaryFlags L) ! i) = m_numRows (m_sentenceBoundaryFlags L)"
    using assms(1) by (simp add: wf_MBLayout_def wf_Matrix_def list_all_length)
  then have jl: "j < length (m_columns (m_sentenceBoundaryFlags L) ! i)"
    using assms(4) by (simp add: GetNumParallelSequences_def GetNumRows_def)
  from assms(2,3) have "consistent_frame (GetFrame L i)"
    by (simp add: consistent_MBLayout_def list_all_iff)
  with jl show ?thesis
    by (simp add: consistent_frame_def GetFrame_def list_all_length elem_def)
qed

lemma frame_guard:
  assumes "wf_MBLayout L" "consistent_MBLayout L" "i < GetSize L" "j < GetNumParallelSequences L"
    and "\<not> Is L i (B OR NoFeature)"
  shows "\<not> Is2 L j i B \<and> \<not> Is2 L j i NoFeature"
  using consistent_cell[OF assms(1-4)] assms(5) has_flag_mono
  unfolding Is_def Is2_def has_flag_OR by blast

lemma shift_frame_marked:
  fixes S :: int
  assumes m: "marked (fst st) L B F" and nF: "\<forall>j. \<not> F j i"
    and i: "i < GetSize L" and B: "B \<noteq> 0" and len: "length (snd st) = GetNumParallelSequences L"
    and wf: "wf_MBLayout L" and cons: "consistent_MBLayout L"
  defines "c \<equiv> \<lambda>j. if Is2 L j i B then S else if Is2 L j i NoFeature then 0 else snd st ! j"
  shows "marked (fst (shift_frame L B S st i)) L B
           (\<lambda>j t. F j t \<or> (t = i \<and> j < GetNumParallelSequences L \<and> c j > 0)) \<and>
         length (snd (shift_frame L B S st i)) = GetNumParallelSequences L \<and>
         (\<forall>j<GetNumParallelSequences L. snd (shift_frame L B S st i) ! j = c j - 1)"
proof -
  let ?rows = "GetNumParallelSequences L"
  let ?nrl = "if Is L i (B OR NoFeature)
             then foldl (reset_step L B S i) (snd st) [0..<?rows] else snd st"
  have l1: "length ?nrl = ?rows"
    using reset_loop[of ?rows "snd st" L B S i] len by simp
  have v1: "\<forall>j<?rows. ?nrl ! j = c j"
  proof (cases "Is L i (B OR NoFeature)")
    case True
    then show ?thesis
      using reset_loop[of ?rows "snd st" L B S i] len by (simp add: c_def)
  next
    case False
    then show ?thesis
      using frame_guard[OF wf cons i _ False] by (simp add: c_def)
  qed
  have sf: "shift_frame L B S st i = foldl (mark_step B i) (fst st, ?nrl) [0..<?rows]"
    by (simp add: shift_frame_def Let_def)
  note ml = mark_loop_marked[OF m nF order_refl i B l1]
  show ?thesis
    unfolding sf
    apply (intro conjI)
    subgoal
      using ml[THEN conjunct1] apply (rule back_subst[where P="marked _ L B"])
      apply (intro ext)
      using v1 apply auto
      done
    subgoal using ml l1 by simp
    subgoal using ml l1 v1 by simp
    done
qed

lemma marked_base: "wf_MBLayout L \<Longrightarrow> marked L L B (\<lambda>j t. False)"
  by (simp add: marked_def same_dims_def)

lemma shift_loop_marked:
  fixes S :: int
  assumes wf: "wf_MBLayout L" and cons: "consistent_MBLayout L" and B: "B \<noteq> 0"
    and n: "n \<le> GetSize L"
  defines "st \<equiv> \<lambda>n. foldl (shift_frame L B S) (L, replicate (GetNumParallelSequences L) 0) [0..<n]"
  shows "marked (fst (st n)) L B (\<lambda>j t. t < n \<and> j < GetNumParallelSequences L \<and> countdown L B S j t > 0) \<and>
         length (snd (st n)) = GetNumParallelSequences L \<and>
         (\<forall>j<GetNumParallelSequences L. snd (st n) ! j = (if n = 0 then 0 else countdown L B S j (n - 1) - 1))"
  using n
proof (induction n)
  case 0
  show ?case using marked_base[OF wf] by (simp add: st_def)
next
  case (Suc n)
  let ?rows = "GetNumParallelSequences L"
  let ?F = "\<lambda>j t. t < n \<and> j < ?rows \<and> countdown L B S j t > 0"
  from Suc have IH: "marked (fst (st n)) L B ?F" "length (snd (st n)) = ?rows"
    "\<forall>j<?rows. snd (st n) ! j = (if n = 0 then 0 else countdown L B S j (n - 1) - 1)"
    and n: "n < GetSize L"
    by simp_all
  have nF: "\<forall>j. \<not> ?F j n" by simp
  have step: "st (Suc n) = shift_frame L B S (st n) n"
    by (simp add: st_def)
  have c: "\<forall>j<?rows. (if Is2 L j n B then S else if Is2 L j n NoFeature then 0 else snd (st n) ! j)
             = countdown L B S j n"
  proof (cases n)
    case 0
    then show ?thesis using IH(3) by simp
  next
    case (Suc m)
    then show ?thesis using IH(3) by simp
  qed
  note sf = shift_frame_marked[OF IH(1) nF n B IH(2) wf cons, of S]
  show ?case
    unfolding step
    apply (intro conjI)
    subgoal
      using sf[THEN conjunct1] apply (rule back_subst[where P="marked _ L B"])
      apply (intro ext)
      using c apply (auto simp: less_Suc_eq)
      done
    subgoal using sf by simp
    subgoal using sf c by simp
    done
qed

lemma countdown_pos_D:
  "countdown L B S j i > 0 \<Longrightarrow>
   \<exists>k\<le>i. Is2 L j k B \<and> countdown L B S j i = S - int (i - k) \<and>
      (\<forall>m. k < m \<and> m \<le> i \<longrightarrow> \<not> Is2 L j m NoFeature \<or> Is2 L j m B)"
proof (induction i)
  case 0
  then show ?case by (auto split: if_splits)
next
  case (Suc i)
  show ?case
  proof (cases "Is2 L j (Suc i) B")
    case True
    then show ?thesis by (intro exI[of _ "Suc i"]) auto
  next
    case False
    with Suc.prems have nf: "\<not> Is2 L j (Suc i) NoFeature" and pos: "countdown L B S j i > 0"
      and eq: "countdown L B S j (Suc i) = countdown L B S j i - 1"
      by (auto split: if_splits)
    from Suc.IH[OF pos] obtain k where k: "k \<le> i" "Is2 L j k B"
      "countdown L B S j i = S - int (i - k)"
      "\<forall>m. k < m \<and> m \<le> i \<longrightarrow> \<not> Is2 L j m NoFeature \<or> Is2 L j m B"
      by blast
    show ?thesis
      apply (intro exI[of _ k])
      using k nf eq by (auto simp: le_Suc_eq)
  qed
qed

lemma countdown_ge:
  "Is2 L j k B \<Longrightarrow> k \<le> i \<Longrightarrow>
   (\<forall>m. k < m \<and> m \<le> i \<longrightarrow> \<not> Is2 L j m NoFeature \<or> Is2 L j m B) \<Longrightarrow>
   countdown L B S j i \<ge> S - int (i - k)"
proof (induction i)
  case 0
  then show ?case by simp
next
  case (Suc i)
  show ?case
  proof (cases "k = Suc i")
    case True
    with Suc.prems show ?thesis by simp
  next
    case False
    with Suc.prems have ki: "k \<le> i" by simp
    have "countdown L B S j i \<ge> S - int (i - k)"
      using Suc.IH[OF Suc.prems(1) ki] Suc.prems(3) by simp
    moreover have "\<not> Is2 L j (Suc i) NoFeature \<or> Is2 L j (Suc i) B"
      using Suc.prems(3) ki by simp
    ultimately show ?thesis using ki by (auto simp: Suc_diff_le)
  qed
qed

lemma countdown_pos_iff:
  "countdown L B S j i > 0 \<longleftrightarrow>
   (\<exists>k\<le>i. Is2 L j k B \<and> int i < int k + S \<and>
      (\<forall>m. k < m \<and> m \<le> i \<longrightarrow> \<not> Is2 L j m NoFeature \<or> Is2 L j m B))"
proof
  assume "countdown L B S j i > 0"
  from countdown_pos_D[OF this] obtain k where k: "k \<le> i" "Is2 L j k B"
      "countdown L B S j i = S - int (i - k)"
      "\<forall>m. k < m \<and> m \<le> i \<longrightarrow> \<not> Is2 L j m NoFeature \<or> Is2 L j m B"
    by blast
  with \<open>countdown L B S j i > 0\<close> have "int i < int k + S" by (simp add: of_nat_diff)
  with k show "\<exists>k\<le>i. Is2 L j k B \<and> int i < int k + S \<and>
      (\<forall>m. k < m \<and> m \<le> i \<longrightarrow> \<not> Is2 L j m NoFeature \<or> Is2 L j m B)" by blast
next
  assume "\<exists>k\<le>i. Is2 L j k B \<and> int i < int k + S \<and>
      (\<forall>m. k < m \<and> m \<le> i \<longrightarrow> \<not> Is2 L j m NoFeature \<or> Is2 L j m B)"
  then obtain k where k: "k \<le> i" "Is2 L j k B" "int i < int k + S"
      "\<forall>m. k < m \<and> m \<le> i \<longrightarrow> \<not> Is2 L j m NoFeature \<or> Is2 L j m B" by blast
  from countdown_ge[OF k(2,1,4), of S] k(1,3) show "countdown L B S j i > 0"
    by (simp add: of_nat_diff)
qed

lemma shifted_layout_marked:
  fixes S :: int
  assumes "wf_MBLayout L" "consistent_MBLayout L" "B \<noteq> 0"
  shows "marked (shifted_layout L B S) L B
           (\<lambda>j t. t < GetSize L \<and> j < GetNumParallelSequences L \<and> countdown L B S j t > 0)"
  using shift_loop_marked[OF assms order_refl, of S]
  by (simp add: shifted_layout_def)

lemma consistent_MBLayoutI:
  assumes wf: "wf_MBLayout L"
    and c: "\<And>i j. i < GetSize L \<Longrightarrow> j < GetNumParallelSequences L \<Longrightarrow>
      elem (m_sentenceBoundaryFlags L) j i AND m_minibatchPackingFlags L ! i =
      elem (m_sentenceBoundaryFlags L) j i"
  shows "consistent_MBLayout L"
  unfolding consistent_MBLayout_def consistent_frame_def GetFrame_def list_all_length
proof (intro allI impI)
  fix n j
  assume n: "n < length [0..<GetSize L]"
    and j: "j < length (fst (m_columns (m_sentenceBoundaryFlags L) ! ([0..<GetSize L] ! n),
                      m_minibatchPackingFlags L ! ([0..<GetSize L] ! n)))"
  from n have n': "n < GetSize L" by simp
  then have il: "n < length (m_columns (m_sentenceBoundaryFlags L))"
    using wf by (simp add: wf_MBLayout_def GetNumCols_def GetSize_def)
  then have "length (m_columns (m_sentenceBoundaryFlags L) ! n) = m_numRows (m_sentenceBoundaryFlags L)"
    using wf by (simp add: wf_MBLayout_def wf_Matrix_def list_all_length)
  with j n' have j': "j < GetNumParallelSequences L"
    by (simp add: GetNumParallelSequences_def GetNumRows_def)
  from c[OF n' j'] n'
  show "fst (m_columns (m_sentenceBoundaryFlags L) ! ([0..<GetSize L] ! n),
             m_minibatchPackingFlags L ! ([0..<GetSize L] ! n)) ! j AND
        snd (m_columns (m_sentenceBoundaryFlags L) ! ([0..<GetSize L] ! n),
             m_minibatchPackingFlags L ! ([0..<GetSize L] ! n)) =
        fst (m_columns (m_sentenceBoundaryFlags L) ! ([0..<GetSize L] ! n),
             m_minibatchPackingFlags L ! ([0..<GetSize L] ! n)) ! j"
    by (simp add: elem_def)
qed

lemma subflags_force:
  fixes c m :: MinibatchPackingFlags
  assumes "c AND m = c"
  shows "((c AND x) OR B) AND (m OR B) = (c AND x) OR B" and "c AND (m OR B) = c"
proof -
  have b: "\<And>n. bit c n \<Longrightarrow> bit m n"
    using assms by (metis bit_and_iff)
  show "((c AND x) OR B) AND (m OR B) = (c AND x) OR B"
    by (rule bit_eqI) (auto simp: bit_simps dest: b)
  show "c AND (m OR B) = c"
    by (rule bit_eqI) (auto simp: bit_simps dest: b)
qed

lemma shifted_layout_consistent:
  fixes S :: int
  assumes wf: "wf_MBLayout L" and cons: "consistent_MBLayout L" and B: "B \<noteq> 0"
  shows "wf_MBLayout (shifted_layout L B S) \<and> consistent_MBLayout (shifted_layout L B S) \<and>
         GetSize (shifted_layout L B S) = GetSize L \<and>
         GetNumParallelSequences (shifted_layout L B S) = GetNumParallelSequences L"
proof -
  let ?sh = "shifted_layout L B S"
  note m = shifted_layout_marked[OF assms, of S, unfolded marked_def]
  from m have wfs: "wf_MBLayout ?sh" and sd: "same_dims ?sh L" by simp_all
  from sd have dims: "GetSize ?sh = GetSize L" "GetNumParallelSequences ?sh = GetNumParallelSequences L"
    by (simp_all add: same_dims_def GetSize_def GetNumParallelSequences_def GetNumRows_def)
  have "consistent_MBLayout ?sh"
  proof (rule consistent_MBLayoutI[OF wfs])
    fix i j
    assume "i < GetSize ?sh" "j < GetNumParallelSequences ?sh"
    then have i: "i < GetSize L" and j: "j < GetNumParallelSequences L"
      using dims by simp_all
    note cc = consistent_cell[OF wf cons i j]
    from m have e: "elem (m_sentenceBoundaryFlags ?sh) j i =
        (if i < GetSize L \<and> j < GetNumParallelSequences L \<and> countdown L B S j i > 0
         then (elem (m_sentenceBoundaryFlags L) j i AND NoLabel) OR B
         else elem (m_sentenceBoundaryFlags L) j i)"
      and f: "m_minibatchPackingFlags ?sh ! i =
        (if \<exists>j. i < GetSize L \<and> j < GetNumParallelSequences L \<and> countdown L B S j i > 0
         then m_minibatchPackingFlags L ! i OR B else m_minibatchPackingFlags L ! i)"
      by blast+
    show "elem (m_sentenceBoundaryFlags ?sh) j i AND m_minibatchPackingFlags ?sh ! i =
          elem (m_sentenceBoundaryFlags ?sh) j i"
      unfolding e f using subflags_force[OF cc] cc by auto
  qed
  with wfs dims show ?thesis by simp
qed

lemma SequenceStart_or_End_nonzero: "SequenceStart_or_End kind \<noteq> 0"
  by (cases kind) (simp_all add: SequenceStart_def SequenceEnd_def)

text \<open>
  C3, as the code has it. For a step above one, SetMBLayout scans the frames in time
  order for both kinds of node. A cell (stream j, frame i) of the shifted layout is
  forced exactly when some frame k at or before i carries the boundary flag on that
  stream, i is one of the frames k .. k+S-1, and no frame after k up to i is a frame
  without features that lacks the boundary flag. A forced cell holds the boundary flag
  and, of its former flags, only NoLabel. Every other cell is the cell of the base
  layout: in particular the forcing ends at a NoInput frame although the countdown has
  not run out.
\<close>

theorem SetMBLayout_boundary_window:
  assumes "wf_MBLayout L" and "consistent_MBLayout L" and "1 < m_timeStep n"
    and "j < GetNumParallelSequences L" and "i < GetSize L"
  shows "\<exists>n'. SetMBLayout kind n L = Inr n' \<and>
           elem (m_sentenceBoundaryFlags (m_pShiftedMBLayout n')) j i =
             (if \<exists>k\<le>i. Is2 L j k (SequenceStart_or_End kind) \<and> int i < int k + m_timeStep n \<and>
                   (\<forall>m. k < m \<and> m \<le> i \<longrightarrow>
                      \<not> Is2 L j m NoFeature \<or> Is2 L j m (SequenceStart_or_End kind))
              then (elem (m_sentenceBoundaryFlags L) j i AND NoLabel) OR SequenceStart_or_End kind
              else elem (m_sentenceBoundaryFlags L) j i)"
proof -
  let ?B = "SequenceStart_or_End kind"
  note m = shifted_layout_marked[OF assms(1,2) SequenceStart_or_End_nonzero, of kind "m_timeStep n",
      unfolded marked_def]
  then have "elem (m_sentenceBoundaryFlags (shifted_layout L ?B (m_timeStep n))) j i =
      (if countdown L ?B (m_timeStep n) j i > 0
       then (elem (m_sentenceBoundaryFlags L) j i AND NoLabel) OR ?B
       else elem (m_sentenceBoundaryFlags L) j i)"
    using assms(4,5) by simp
  then show ?thesis
    using assms(3) unfolding countdown_pos_iff by (simp add: SetMBLayout_def)
qed

text \<open>
  The theorem at a past-value node of step 3 on the two-stream layout: stream 1 starts
  at frame 1, so frame 3 is the last frame of its window and is forced.
\<close>

theorem SetMBLayout_boundary_window_witness:
  "wf_MBLayout layout_two_streams \<and> consistent_MBLayout layout_two_streams \<and>
   1 < m_timeStep (new_DelayedValueNodeBase (0::int) 1 1 3) \<and>
   (1::nat) < GetNumParallelSequences layout_two_streams \<and> (3::nat) < GetSize layout_two_streams \<and>
   (\<exists>n'. SetMBLayout PastValue (new_DelayedValueNodeBase (0::int) 1 1 3) layout_two_streams = Inr n' \<and>
      elem (m_sentenceBoundaryFlags (m_pShiftedMBLayout n')) 1 3 = SequenceStart)"
proof -
  let ?L = layout_two_streams
  let ?n = "new_DelayedValueNodeBase (0::int) 1 1 3"
  have h: "wf_MBLayout ?L" "consistent_MBLayout ?L" "1 < m_timeStep ?n"
    "(1::nat) < GetNumParallelSequences ?L" "(3::nat) < GetSize ?L"
    by code_simp+
  have t: "m_timeStep ?n = 3" by code_simp
  have e: "(elem (m_sentenceBoundaryFlags ?L) 1 3 AND NoLabel) OR SequenceStart_or_End PastValue
           = SequenceStart"
    by code_simp
  have w: "\<exists>k\<le>3. Is2 ?L 1 k (SequenceStart_or_End PastValue) \<and> int 3 < int k + m_timeStep ?n \<and>
             (\<forall>m. k < m \<and> m \<le> 3 \<longrightarrow>
                \<not> Is2 ?L 1 m NoFeature \<or> Is2 ?L 1 m (SequenceStart_or_End PastValue))"
  proof (intro exI[of _ 1] conjI allI impI)
    show "Is2 ?L 1 1 (SequenceStart_or_End PastValue)" by code_simp
    show "int 3 < int 1 + m_timeStep ?n" unfolding t by simp
    fix m :: nat
    assume "1 < m \<and> m \<le> 3"
    then have "m = 2 \<or> m = 3" by auto
    moreover have "\<not> Is2 ?L 1 2 NoFeature" "\<not> Is2 ?L 1 3 NoFeature" by code_simp+
    ultimately show "\<not> Is2 ?L 1 m NoFeature \<or> Is2 ?L 1 m (SequenceStart_or_End PastValue)"
      by auto
  qed simp
  have "\<exists>n'. SetMBLayout PastValue ?n ?L = Inr n' \<and>
      elem (m_sentenceBoundaryFlags (m_pShiftedMBLayout n')) 1 3 = SequenceStart"
    using SetMBLayout_boundary_window[OF h, of PastValue] unfolding if_P[OF w] e .
  with h show ?thesis by blast
qed

text \<open>
  C3 as stated fails for the past-value node (direction -1): with step 2 and a sequence
  start at frame k = 1, the claim has frames k-S+1 .. k, that is 0 and 1, forced. The
  code leaves frame 0 alone and forces frame 2.
\<close>

theorem SetMBLayout_past_window_counterexample:
  "direction PastValue = -1 \<and> Is2 layout_start_at_1 0 1 SequenceStart \<and>
   (case SetMBLayout PastValue (new_DelayedValueNodeBase (0::int) 1 1 2) layout_start_at_1 of
      Inl e \<Rightarrow> False
    | Inr n' \<Rightarrow> \<not> Is2 (m_pShiftedMBLayout n') 0 0 SequenceStart \<and>
               Is2 (m_pShiftedMBLayout n') 0 2 SequenceStart)"
  by code_simp

subsection \<open>Loops and column slices\<close>

lemma for_each_append:
  "for_each (xs @ ys) body s =
     (case for_each xs body s of Inl fault \<Rightarrow> Inl fault | Inr s' \<Rightarrow> for_each ys body s')"
  by (induction xs arbitrary: s) (auto split: sum.splits)

lemma for_each_snoc:
  "for_each (xs @ [x]) body s =
     (case for_each xs body s of Inl fault \<Rightarrow> Inl fault | Inr s' \<Rightarrow> body x s')"
  by (simp add: for_each_append split: sum.splits)

lemma for_each_state_invariant:
  assumes "\<And>i s. i \<in> set xs \<Longrightarrow> P s \<Longrightarrow> P (state_of (body i s))" and "P s"
  shows "P (state_of (for_each xs body s))"
  using assms
proof (induction xs arbitrary: s)
  case Nil
  then show ?case by (simp add: state_of_def)
next
  case (Cons x xs)
  show ?case
  proof (cases "body x s")
    case (Inl fault)
    with Cons.prems(1)[of x s] Cons.prems(2) show ?thesis by (simp add: state_of_def)
  next
    case (Inr s')
    with Cons.prems(1)[of x s] Cons.prems(2) have "P s'" by (simp add: state_of_def)
    with Cons.IH[of s'] Cons.prems(1) Inr show ?thesis by simp
  qed
qed

lemma UpdateSlice_numRows [simp]: "m_numRows (UpdateSlice M s n f) = m_numRows M"
  by (simp add: UpdateSlice_def)

lemma UpdateSlice_length [simp]:
  "length (m_columns (UpdateSlice M s n f)) = length (m_columns M)"
  by (simp add: UpdateSlice_def)

lemma UpdateSlice_GetNumCols [simp]: "GetNumCols (UpdateSlice M s n f) = GetNumCols M"
  by (simp add: GetNumCols_def)

lemma UpdateSlice_GetNumRows [simp]: "GetNumRows (UpdateSlice M s n f) = GetNumRows M"
  by (simp add: GetNumRows_def)

lemma nth_UpdateSlice:
  "c < length (m_columns M) \<Longrightarrow>
   m_columns (UpdateSlice M s n f) ! c =
     (if s \<le> c \<and> c < s + n then f (c - s) (m_columns M ! c) else m_columns M ! c)"
  by (simp add: UpdateSlice_def)

lemma wf_UpdateSlice:
  assumes "wf_Matrix M"
    and "\<And>c. c < n \<Longrightarrow> s + c < length (m_columns M) \<Longrightarrow>
          length (f c (m_columns M ! (s + c))) = m_numRows M"
  shows "wf_Matrix (UpdateSlice M s n f)"
  unfolding wf_Matrix_def list_all_length
proof (intro allI impI)
  fix c assume "c < length (m_columns (UpdateSlice M s n f))"
  then have c: "c < length (m_columns M)" by simp
  show "length (m_columns (UpdateSlice M s n f) ! c) = m_numRows (UpdateSlice M s n f)"
  proof (cases "s \<le> c \<and> c < s + n")
    case True
    then have "c - s < n" "s + (c - s) = c" by auto
    with assms(2)[of "c - s"] c True show ?thesis by (simp add: nth_UpdateSlice)
  next
    case False
    with assms(1) c show ?thesis
      by (auto simp: nth_UpdateSlice wf_Matrix_def list_all_length)
  qed
qed

lemma ColumnSlice_Inr:
  "s + n \<le> GetNumCols M \<Longrightarrow> ColumnSlice M s n = Inr (take n (drop s (m_columns M)))"
  by (simp add: ColumnSlice_def)

lemma ColumnSlice_Inl:
  "\<not> s + n \<le> GetNumCols M \<Longrightarrow> ColumnSlice M s n = Inl MatrixFault"
  by (simp add: ColumnSlice_def)

lemma same_shape_slice:
  assumes "wf_Matrix G" "s + n \<le> GetNumCols G" "GetNumRows G = GetNumRows M"
  shows "same_shape M n (take n (drop s (m_columns G)))"
  using assms
  by (auto simp: same_shape_def wf_Matrix_def GetNumCols_def GetNumRows_def list_all_length)

subsection \<open>Gradient scatter of the delayed-value nodes\<close>

lemma Matrix_eqI:
  fixes A B :: "'a Matrix"
  shows "m_numRows A = m_numRows B \<Longrightarrow> m_columns A = m_columns B \<Longrightarrow> A = B"
  by simp

lemma scatter_add_simps [simp]:
  "m_numRows (scatter_add ds ts n sel G Grad) = m_numRows G"
  "length (m_columns (scatter_add ds ts n sel G Grad)) = length (m_columns G)"
  "GetNumCols (scatter_add ds ts n sel G Grad) = GetNumCols G"
  "GetNumRows (scatter_add ds ts n sel G Grad) = GetNumRows G"
  by (simp_all add: scatter_add_def)

lemma nth_scatter_add:
  "c < length (m_columns G) \<Longrightarrow>
   m_columns (scatter_add ds ts n sel G Grad) ! c =
     (if ds \<le> c \<and> c < ds + n \<and> sel (c - ds)
      then map2 (+) (m_columns G ! c) (m_columns Grad ! (ts + (c - ds)))
      else m_columns G ! c)"
  by (simp add: scatter_add_def nth_UpdateSlice)

lemma wf_scatter_add:
  assumes "wf_Matrix G" "wf_Matrix Grad" "GetNumRows Grad = GetNumRows G"
    and "ts + n \<le> GetNumCols Grad"
  shows "wf_Matrix (scatter_add ds ts n sel G Grad)"
  unfolding scatter_add_def
proof (rule wf_UpdateSlice[OF assms(1)])
  fix c assume c: "c < n" "ds + c < length (m_columns G)"
  then have "ts + c < length (m_columns Grad)" using assms(4) by (simp add: GetNumCols_def)
  then have "length (m_columns Grad ! (ts + c)) = m_numRows G"
    using assms(2,3) by (simp add: wf_Matrix_def list_all_length GetNumRows_def)
  moreover have "length (m_columns G ! (ds + c)) = m_numRows G"
    using assms(1) c by (simp add: wf_Matrix_def list_all_length)
  ultimately show "length (if sel c then map2 (+) (m_columns G ! (ds + c)) (m_columns Grad ! (ts + c))
                     else m_columns G ! (ds + c)) = m_numRows G"
    by simp
qed

lemma PlusAssign_slice:
  assumes "wf_Matrix Grad" "GetNumRows Grad = GetNumRows G" "ts + n \<le> GetNumCols Grad"
  shows "PlusAssign G ds n (take n (drop ts (m_columns Grad))) =
         Inr (scatter_add ds ts n (\<lambda>c. True) G Grad)"
proof -
  have sh: "same_shape G n (take n (drop ts (m_columns Grad)))"
    using same_shape_slice[OF assms(1,3,2)] .
  have "UpdateSlice G ds n (\<lambda>c old. map2 (+) old (take n (drop ts (m_columns Grad)) ! c)) =
        scatter_add ds ts n (\<lambda>c. True) G Grad"
    unfolding scatter_add_def UpdateSlice_def
    using assms(3) by (auto simp: GetNumCols_def intro!: Matrix_eqI)
  with sh show ?thesis by (simp add: PlusAssign_def)
qed

lemma scatter_add_step:
  assumes "ds + Suc n \<le> GetNumCols G"
  shows "scatter_add (ds + n) (ts + n) 1 (\<lambda>c. sel n) (scatter_add ds ts n sel G Grad) Grad =
         scatter_add ds ts (Suc n) sel G Grad"
proof (rule Matrix_eqI)
  show "m_numRows (scatter_add (ds + n) (ts + n) 1 (\<lambda>c. sel n) (scatter_add ds ts n sel G Grad) Grad) =
        m_numRows (scatter_add ds ts (Suc n) sel G Grad)" by simp
  show "m_columns (scatter_add (ds + n) (ts + n) 1 (\<lambda>c. sel n) (scatter_add ds ts n sel G Grad) Grad) =
        m_columns (scatter_add ds ts (Suc n) sel G Grad)"
  proof (rule nth_equalityI)
    show "length (m_columns (scatter_add (ds + n) (ts + n) 1 (\<lambda>c. sel n) (scatter_add ds ts n sel G Grad) Grad)) =
          length (m_columns (scatter_add ds ts (Suc n) sel G Grad))" by simp
    fix c assume "c < length (m_columns (scatter_add (ds + n) (ts + n) 1 (\<lambda>c. sel n) (scatter_add ds ts n sel G Grad) Grad))"
    then have c: "c < length (m_columns G)" by simp
    show "m_columns (scatter_add (ds + n) (ts + n) 1 (\<lambda>c. sel n) (scatter_add ds ts n sel G Grad) Grad) ! c =
          m_columns (scatter_add ds ts (Suc n) sel G Grad) ! c"
    proof (cases "c = ds + n")
      case True
      then show ?thesis using c by (simp add: nth_scatter_add)
    next
      case False
      then show ?thesis using c by (auto simp: nth_scatter_add)
    qed
  qed
qed

lemma ComputeInputPartialSRP_stream_loop:
  fixes G Grad :: "'a::plus Matrix"
  assumes wf: "wf_Matrix G" "wf_Matrix Grad" and rows: "GetNumRows Grad = GetNumRows G"
    and d: "delayed_t k t S * mNbr + mNbr \<le> GetNumCols G"
    and tt: "t * mNbr + mNbr \<le> GetNumCols Grad"
    and n: "n \<le> mNbr"
  shows "for_each [0..<n] (ComputeInputPartialSRP_stream k t mNbr S Grad flags) G =
         Inr (scatter_add (delayed_t k t S * mNbr) (t * mNbr) n (\<lambda>c. permits k (flags ! c)) G Grad)"
  using n
proof (induction n)
  case 0
  show ?case by (auto simp: scatter_add_def UpdateSlice_def intro!: Matrix_eqI nth_equalityI)
next
  case (Suc n)
  let ?ds = "delayed_t k t S * mNbr" and ?ts = "t * mNbr"
  let ?Gn = "scatter_add ?ds ?ts n (\<lambda>c. permits k (flags ! c)) G Grad"
  from Suc have IH: "for_each [0..<n] (ComputeInputPartialSRP_stream k t mNbr S Grad flags) G = Inr ?Gn"
    and n: "n < mNbr" by simp_all
  have r1: "?ds + n + 1 \<le> GetNumCols ?Gn" using d n by simp
  have r2: "?ts + n + 1 \<le> GetNumCols Grad" using tt n by simp
  have step: "ComputeInputPartialSRP_stream k t mNbr S Grad flags n ?Gn =
              Inr (scatter_add (?ds + n) (?ts + n) 1 (\<lambda>c. permits k (flags ! n)) ?Gn Grad)"
  proof (cases "permits k (flags ! n)")
    case True
    have pa: "PlusAssign ?Gn (?ds + n) 1 (take 1 (drop (?ts + n) (m_columns Grad))) =
          Inr (scatter_add (?ds + n) (?ts + n) 1 (\<lambda>c. True) ?Gn Grad)"
      using PlusAssign_slice[OF wf(2), of ?Gn "?ts + n" 1 "?ds + n"] rows r2 by simp
    from True show ?thesis
      unfolding ComputeInputPartialSRP_stream_def
      using r1 r2 pa by (simp add: permits_def ColumnSlice_def)
  next
    case False
    have "scatter_add (?ds + n) (?ts + n) 1 (\<lambda>c. False) ?Gn Grad = ?Gn"
      by (auto simp: scatter_add_def UpdateSlice_def intro!: Matrix_eqI nth_equalityI)
    with False show ?thesis
      unfolding ComputeInputPartialSRP_stream_def
      by (auto simp: permits_def)
  qed
  have "?ds + Suc n \<le> GetNumCols G" using d n by simp
  from scatter_add_step[OF this, of ?ts "\<lambda>c. permits k (flags ! c)" Grad]
  show ?case
    by (simp add: for_each_snoc IH step)
qed

lemma ComputeInputPartialSRP_result:
  fixes G Grad :: "'a::plus Matrix"
  assumes wf: "wf_Matrix G" "wf_Matrix Grad" and rows: "GetNumRows Grad = GetNumRows G"
    and chk: "delayed_t k (timeIdxInSeq fr) S < GetNumCols Grad"
    and d: "delayed_t k (timeIdxInSeq fr) S * samplesInRecurrentStep fr + samplesInRecurrentStep fr
              \<le> GetNumCols G"
    and tt: "timeIdxInSeq fr * samplesInRecurrentStep fr + samplesInRecurrentStep fr \<le> GetNumCols Grad"
  shows "ComputeInputPartialSRP k fr S G Grad flags mbf =
         Inr (scatter_add (delayed_t k (timeIdxInSeq fr) S * samplesInRecurrentStep fr)
                (timeIdxInSeq fr * samplesInRecurrentStep fr) (samplesInRecurrentStep fr)
                (\<lambda>c. has_flag mbf (SequenceStart_or_End k OR NoFeature) \<longrightarrow> permits k (flags ! c))
                G Grad)"
proof (cases "has_flag mbf (SequenceStart_or_End k OR NoFeature)")
  case True
  then show ?thesis
    unfolding ComputeInputPartialSRP_def Let_def
    using chk ComputeInputPartialSRP_stream_loop[OF wf rows d tt order_refl, of flags]
    by simp
next
  case False
  then show ?thesis
    unfolding ComputeInputPartialSRP_def Let_def
    using chk d tt PlusAssign_slice[OF wf(2) rows tt]
    by (simp add: ColumnSlice_def)
qed

lemma delayed_t_out_of_range:
  assumes "- (2 ^ 31) \<le> S" "S < 2 ^ 31" "t < 2 ^ 63" "numCols < 2 ^ 63"
  shows "delayed_t k t S < numCols \<longleftrightarrow>
         0 \<le> int t + direction k * S \<and> int t + direction k * S < int numCols"
proof -
  let ?x = "int t + direction k * S"
  have dir: "direction k * S = S \<or> direction k * S = - S" by (cases k) simp_all
  have lo: "- (2 ^ 31) \<le> ?x" using assms(1,2) dir by auto
  have hi: "?x < 2 ^ 64" using assms(1,2,3) dir by auto
  show ?thesis
  proof (cases "0 \<le> ?x")
    case True
    then have "?x mod 2 ^ 64 = ?x" using hi by simp
    then show ?thesis using True by (simp add: delayed_t_def nat_less_iff)
  next
    case False
    have "(?x + 2 ^ 64) mod 2 ^ 64 = ?x + 2 ^ 64"
      using lo False by (intro mod_pos_pos_trivial) auto
    moreover have "(?x + 2 ^ 64) mod 2 ^ 64 = ?x mod 2 ^ 64"
      by simp
    ultimately have "?x mod 2 ^ 64 = ?x + 2 ^ 64" by simp
    then show ?thesis using False assms(4) lo by (simp add: delayed_t_def)
  qed
qed

lemma delayed_t_in_range:
  assumes "0 \<le> int t + direction k * S" and "int t + direction k * S < 2 ^ 64"
  shows "delayed_t k t S = nat (int t + direction k * S)"
  using assms by (simp add: delayed_t_def)

lemma ComputeInputPartialSRP_accumulates_at:
  fixes G Grad1 Grad2 :: "'a::plus Matrix"
  assumes "wf_Matrix G" and "wf_Matrix Grad1" and "wf_Matrix Grad2"
    and "GetNumRows Grad1 = GetNumRows G" and "GetNumRows Grad2 = GetNumRows G"
    and "GetNumCols Grad2 = GetNumCols Grad1"
    and "timeIdxInSeq fr = t" and "samplesInRecurrentStep fr = mNbr"
    and "delayed_t k t S < GetNumCols Grad1"
    and "delayed_t k t S * mNbr + mNbr \<le> GetNumCols G"
    and "t * mNbr + mNbr \<le> GetNumCols Grad1"
    and "i < mNbr"
    and "\<not> has_flag (colBoundaryFlags ! i) (SequenceStart_or_End k)"
    and "\<not> has_flag (colBoundaryFlags ! i) NoFeature"
  shows "\<exists>G' G''.
      ComputeInputPartialSRP k fr S G Grad1 colBoundaryFlags minibatchPackingFlags = Inr G' \<and>
      ComputeInputPartialSRP k fr S G' Grad2 colBoundaryFlags minibatchPackingFlags = Inr G'' \<and>
      m_columns G' ! (delayed_t k t S * mNbr + i) =
        map2 (+) (m_columns G ! (delayed_t k t S * mNbr + i)) (m_columns Grad1 ! (t * mNbr + i)) \<and>
      m_columns G'' ! (delayed_t k t S * mNbr + i) =
        map2 (+) (map2 (+) (m_columns G ! (delayed_t k t S * mNbr + i))
                           (m_columns Grad1 ! (t * mNbr + i)))
                 (m_columns Grad2 ! (t * mNbr + i))"
proof -
  let ?ds = "delayed_t k t S * mNbr" and ?ts = "t * mNbr"
  let ?sel = "\<lambda>c. has_flag minibatchPackingFlags (SequenceStart_or_End k OR NoFeature) \<longrightarrow>
                  permits k (colBoundaryFlags ! c)"
  let ?G1 = "scatter_add ?ds ?ts mNbr ?sel G Grad1"
  let ?G2 = "scatter_add ?ds ?ts mNbr ?sel ?G1 Grad2"
  have sel: "?sel i" using assms(13,14) by (simp add: permits_def)
  have c: "?ds + i < length (m_columns G)" using assms(10,12) by (simp add: GetNumCols_def)
  have r1: "ComputeInputPartialSRP k fr S G Grad1 colBoundaryFlags minibatchPackingFlags = Inr ?G1"
    using ComputeInputPartialSRP_result[OF assms(1,2,4), of k fr S colBoundaryFlags minibatchPackingFlags]
      assms(7-11) by simp
  have wf1: "wf_Matrix ?G1"
    using wf_scatter_add[OF assms(1,2,4)] assms(11) by simp
  have r2: "ComputeInputPartialSRP k fr S ?G1 Grad2 colBoundaryFlags minibatchPackingFlags = Inr ?G2"
    using ComputeInputPartialSRP_result[OF wf1 assms(3), of k fr S colBoundaryFlags minibatchPackingFlags]
      assms(5-11) by simp
  have c1: "m_columns ?G1 ! (?ds + i) = map2 (+) (m_columns G ! (?ds + i)) (m_columns Grad1 ! (?ts + i))"
    using c sel assms(12) by (simp add: nth_scatter_add)
  have c2: "m_columns ?G2 ! (?ds + i) = map2 (+) (m_columns ?G1 ! (?ds + i)) (m_columns Grad2 ! (?ts + i))"
    using c sel assms(12) by (simp add: nth_scatter_add)
  from r1 r2 c1 c2 show ?thesis by simp
qed

text \<open>
  C7. ComputeInputPartialSRP accumulates. Take a frame t whose delayed frame
  d = t + direction * S is not negative and below the number of columns of the node
  gradient (the range check of the code), with the columns of frame t inside the gradient
  buffer of the node and the columns of frame d inside the gradient buffer of the input,
  and a stream i whose shifted flag has neither the boundary flag nor NoFeature. Then the
  call returns, and column d * mNbr + i of the input gradient is its former content plus
  column t * mNbr + i of the node gradient. A second contribution from another gradient
  buffer is added on top of the first: the column then holds the sum of all three.
\<close>

theorem ComputeInputPartialSRP_accumulates:
  fixes G Grad1 Grad2 :: "'a::plus Matrix"
  assumes "wf_Matrix G" and "wf_Matrix Grad1" and "wf_Matrix Grad2"
    and "GetNumRows Grad1 = GetNumRows G" and "GetNumRows Grad2 = GetNumRows G"
    and "GetNumCols Grad2 = GetNumCols Grad1" and "GetNumCols Grad1 < 2 ^ 64"
    and "timeIdxInSeq fr = t" and "samplesInRecurrentStep fr = mNbr"
    and "0 \<le> int t + direction k * S"
    and "nat (int t + direction k * S) < GetNumCols Grad1"
    and "nat (int t + direction k * S) * mNbr + mNbr \<le> GetNumCols G"
    and "t * mNbr + mNbr \<le> GetNumCols Grad1"
    and "i < mNbr"
    and "\<not> has_flag (colBoundaryFlags ! i) (SequenceStart_or_End k)"
    and "\<not> has_flag (colBoundaryFlags ! i) NoFeature"
  shows "\<exists>G' G''.
      ComputeInputPartialSRP k fr S G Grad1 colBoundaryFlags minibatchPackingFlags = Inr G' \<and>
      ComputeInputPartialSRP k fr S G' Grad2 colBoundaryFlags minibatchPackingFlags = Inr G'' \<and>
      m_columns G' ! (nat (int t + direction k * S) * mNbr + i) =
        map2 (+) (m_columns G ! (nat (int t + direction k * S) * mNbr + i))
                 (m_columns Grad1 ! (t * mNbr + i)) \<and>
      m_columns G'' ! (nat (int t + direction k * S) * mNbr + i) =
        map2 (+) (map2 (+) (m_columns G ! (nat (int t + direction k * S) * mNbr + i))
                           (m_columns Grad1 ! (t * mNbr + i)))
                 (m_columns Grad2 ! (t * mNbr + i))"
proof -
  have "int (nat (int t + direction k * S)) < int (GetNumCols Grad1)"
    using assms(11) by (simp only: of_nat_less_iff)
  moreover have "int (GetNumCols Grad1) < 2 ^ 64"
    using assms(7) by (metis of_nat_less_iff of_nat_numeral of_nat_power)
  ultimately have "int t + direction k * S < 2 ^ 64" using assms(10) by simp
  from delayed_t_in_range[OF assms(10) this]
  have dt: "delayed_t k t S = nat (int t + direction k * S)" .
  show ?thesis
    using ComputeInputPartialSRP_accumulates_at[OF assms(1-6,8,9) _ _ assms(13-16),
        of S minibatchPackingFlags] assms(11,12)
    unfolding dt by simp
qed

lemma ComputeInputPartialSRP_stream_keeps:
  fixes G :: "'a::plus Matrix"
  assumes c: "delayed_t k t S * mNbr + i < length (m_columns G)"
    and np: "\<not> permits k (flags ! i)"
  shows "length (m_columns (state_of (ComputeInputPartialSRP_stream k t mNbr S Grad flags i' G))) =
           length (m_columns G) \<and>
         m_columns (state_of (ComputeInputPartialSRP_stream k t mNbr S Grad flags i' G)) !
             (delayed_t k t S * mNbr + i) =
           m_columns G ! (delayed_t k t S * mNbr + i)"
proof (cases "i' = i")
  case True
  with np show ?thesis
    unfolding ComputeInputPartialSRP_stream_def state_of_def permits_def by auto
next
  case False
  with c show ?thesis
    unfolding ComputeInputPartialSRP_stream_def PlusAssign_def state_of_def
    by (auto split: sum.splits simp: nth_UpdateSlice)
qed

text \<open>
  ComputeInputPartialSRP drops the contribution in two cases. When the delayed index
  t + direction * S is negative or not below the number of columns of the gradient
  buffer, the call returns the input gradient as it was (the bounds say that the step is
  an \<open>int\<close> and the sizes fit a \<open>size_t\<close>). When the shifted flag of stream i at
  frame t has the boundary flag or NoFeature (NoInput includes NoFeature), column
  (delayed frame, i) of the input gradient is what it was, whether the call returns or
  stops on a fault at another stream; the flags of a frame are those of the layout, so
  the flag of the stream is among the flags of its frame.
\<close>

theorem ComputeInputPartialSRP_drops:
  fixes G :: "'a::plus Matrix"
  assumes "timeIdxInSeq fr = t" and "samplesInRecurrentStep fr = mNbr"
  shows "(- (2 ^ 31) \<le> S \<and> S < 2 ^ 31 \<and> t < 2 ^ 63 \<and> GetNumCols Grad < 2 ^ 63 \<and>
          (int t + direction k * S < 0 \<or> int (GetNumCols Grad) \<le> int t + direction k * S) \<longrightarrow>
            ComputeInputPartialSRP k fr S G Grad colBoundaryFlags minibatchPackingFlags = Inr G) \<and>
         (consistent_frame (colBoundaryFlags, minibatchPackingFlags) \<and>
          length colBoundaryFlags = mNbr \<and> i < mNbr \<and>
          delayed_t k t S * mNbr + i < GetNumCols G \<and>
          (has_flag (colBoundaryFlags ! i) (SequenceStart_or_End k) \<or>
           has_flag (colBoundaryFlags ! i) NoFeature) \<longrightarrow>
            m_columns (state_of (ComputeInputPartialSRP k fr S G Grad colBoundaryFlags
                                   minibatchPackingFlags)) ! (delayed_t k t S * mNbr + i) =
            m_columns G ! (delayed_t k t S * mNbr + i))"
proof (intro conjI impI)
  assume "- (2 ^ 31) \<le> S \<and> S < 2 ^ 31 \<and> t < 2 ^ 63 \<and> GetNumCols Grad < 2 ^ 63 \<and>
          (int t + direction k * S < 0 \<or> int (GetNumCols Grad) \<le> int t + direction k * S)"
  then have "\<not> delayed_t k t S < GetNumCols Grad"
    using delayed_t_out_of_range[of S t "GetNumCols Grad" k] by auto
  then show "ComputeInputPartialSRP k fr S G Grad colBoundaryFlags minibatchPackingFlags = Inr G"
    using assms by (simp add: ComputeInputPartialSRP_def)
next
  let ?c = "delayed_t k t S * mNbr + i"
  assume h: "consistent_frame (colBoundaryFlags, minibatchPackingFlags) \<and>
          length colBoundaryFlags = mNbr \<and> i < mNbr \<and> ?c < GetNumCols G \<and>
          (has_flag (colBoundaryFlags ! i) (SequenceStart_or_End k) \<or>
           has_flag (colBoundaryFlags ! i) NoFeature)"
  then have sub: "colBoundaryFlags ! i AND minibatchPackingFlags = colBoundaryFlags ! i"
    by (simp add: consistent_frame_def list_all_length)
  have fl: "has_flag (colBoundaryFlags ! i) (SequenceStart_or_End k OR NoFeature)"
    using h by (simp add: has_flag_OR)
  have mb: "has_flag minibatchPackingFlags (SequenceStart_or_End k OR NoFeature)"
    using has_flag_mono[OF sub fl] .
  have np: "\<not> permits k (colBoundaryFlags ! i)" using h by (auto simp: permits_def)
  have c: "?c < length (m_columns G)" using h by (simp add: GetNumCols_def)
  let ?P = "\<lambda>G'. length (m_columns G') = length (m_columns G) \<and> m_columns G' ! ?c = m_columns G ! ?c"
  have loop: "?P (state_of (for_each [0..<mNbr]
                 (ComputeInputPartialSRP_stream k t mNbr S Grad colBoundaryFlags) G))"
  proof (rule for_each_state_invariant[where P="?P"])
    fix i' and G' :: "'a Matrix"
    assume i': "i' \<in> set [0..<mNbr]" and P: "?P G'"
    from P c have c': "?c < length (m_columns G')" by simp
    from ComputeInputPartialSRP_stream_keeps[OF c' np, of Grad i'] P
    show "?P (state_of (ComputeInputPartialSRP_stream k t mNbr S Grad colBoundaryFlags i' G'))"
      by simp
  qed simp
  show "m_columns (state_of (ComputeInputPartialSRP k fr S G Grad colBoundaryFlags
                                   minibatchPackingFlags)) ! ?c = m_columns G ! ?c"
  proof (cases "delayed_t k t S < GetNumCols Grad")
    case True
    with mb loop assms show ?thesis by (simp add: ComputeInputPartialSRP_def)
  next
    case False
    with assms show ?thesis by (simp add: ComputeInputPartialSRP_def state_of_def)
  qed
qed

text \<open>
  The theorem at a future-value node with two streams, frame 0, stream 0; stream 1 carries
  a sequence end. The input gradient holds 10 everywhere, the node gradient [1, 2] at
  (0, 0); the delayed frame is frame 1, so the sum lands in column 2.
\<close>

theorem ComputeInputPartialSRP_accumulates_witness:
  "wf_Matrix (ConstMatrix 2 4 (10::int)) \<and> wf_Matrix sample_gradient \<and>
   GetNumRows sample_gradient = GetNumRows (ConstMatrix 2 4 (10::int)) \<and>
   0 \<le> int 0 + direction FutureValue * 1 \<and>
   nat (int 0 + direction FutureValue * 1) = 1 \<and>
   nat (int 0 + direction FutureValue * 1) < GetNumCols sample_gradient \<and>
   nat (int 0 + direction FutureValue * 1) * 2 + 2 \<le> GetNumCols (ConstMatrix 2 4 (10::int)) \<and>
   0 * 2 + 2 \<le> GetNumCols sample_gradient \<and> (0::nat) < 2 \<and>
   \<not> has_flag ([0, 2] ! 0) (SequenceStart_or_End FutureValue) \<and> \<not> has_flag ([0, 2] ! 0) NoFeature \<and>
   (\<exists>G' G''.
      ComputeInputPartialSRP FutureValue \<lparr>timeIdxInSeq = 0, samplesInRecurrentStep = 2\<rparr> 1
        (ConstMatrix 2 4 10) sample_gradient [0, 2] 2 = Inr G' \<and>
      ComputeInputPartialSRP FutureValue \<lparr>timeIdxInSeq = 0, samplesInRecurrentStep = 2\<rparr> 1
        G' sample_gradient [0, 2] 2 = Inr G'' \<and>
      m_columns G' ! 2 = [11, 12] \<and> m_columns G'' ! 2 = [12, 14])"
proof -
  let ?G = "ConstMatrix 2 4 (10::int)"
  let ?fr = "\<lparr>timeIdxInSeq = 0, samplesInRecurrentStep = 2\<rparr>"
  have n: "GetNumCols sample_gradient = 4" "GetNumCols ?G = 4"
    by code_simp+
  have h: "wf_Matrix ?G" "wf_Matrix sample_gradient" "wf_Matrix sample_gradient"
    "GetNumRows sample_gradient = GetNumRows ?G" "GetNumRows sample_gradient = GetNumRows ?G"
    "GetNumCols sample_gradient = GetNumCols sample_gradient"
    by code_simp+
  have b: "GetNumCols sample_gradient < 2 ^ 64"
    unfolding n by simp
  have f: "timeIdxInSeq ?fr = 0" "samplesInRecurrentStep ?fr = 2"
    by simp_all
  have a: "0 \<le> int 0 + direction FutureValue * 1"
    "nat (int 0 + direction FutureValue * 1) < GetNumCols sample_gradient"
    "nat (int 0 + direction FutureValue * 1) * 2 + 2 \<le> GetNumCols ?G"
    "0 * 2 + 2 \<le> GetNumCols sample_gradient" "(0::nat) < 2"
    unfolding n by simp_all
  have fl: "\<not> has_flag ([0, 2] ! 0) (SequenceStart_or_End FutureValue)"
    "\<not> has_flag ([0, 2] ! 0) NoFeature"
    by code_simp+
  have e: "nat (int 0 + direction FutureValue * 1) * 2 + 0 = 2"
    "map2 (+) (m_columns ?G ! 2) (m_columns sample_gradient ! (0 * 2 + 0)) = [11, 12]"
    "map2 (+) [11, 12] (m_columns sample_gradient ! (0 * 2 + 0)) = [12, 14]"
    by code_simp+
  have d: "nat (int 0 + direction FutureValue * 1) = 1" by simp
  from ComputeInputPartialSRP_accumulates[OF h b f a fl, of 2]
  have "\<exists>G' G''.
      ComputeInputPartialSRP FutureValue ?fr 1 ?G sample_gradient [0, 2] 2 = Inr G' \<and>
      ComputeInputPartialSRP FutureValue ?fr 1 G' sample_gradient [0, 2] 2 = Inr G'' \<and>
      m_columns G' ! 2 = [11, 12] \<and> m_columns G'' ! 2 = [12, 14]"
    unfolding e .
  with h a fl d show ?thesis by blast
qed

text \<open>
  The theorem at a past-value node with two streams: frame 0 has no frame before it, and
  at frame 1 stream 1 carries a sequence start.
\<close>

theorem ComputeInputPartialSRP_drops_witness:
  "(int 0 + direction PastValue * 1 < 0 \<and>
    ComputeInputPartialSRP PastValue \<lparr>timeIdxInSeq = 0, samplesInRecurrentStep = 2\<rparr> 1
      (ConstMatrix 2 4 (10::int)) sample_gradient [1, 0] 1 = Inr (ConstMatrix 2 4 10)) \<and>
   (consistent_frame ([0, 9], 9) \<and> has_flag ([0, 9] ! 1) (SequenceStart_or_End PastValue) \<and>
    m_columns (state_of (ComputeInputPartialSRP PastValue
        \<lparr>timeIdxInSeq = 1, samplesInRecurrentStep = 2\<rparr> 1
        (ConstMatrix 2 4 (10::int)) sample_gradient [0, 9] 9)) ! 1 = [10, 10])"
proof -
  let ?G = "ConstMatrix 2 4 (10::int)"
  have n: "GetNumCols sample_gradient = 4"
    by code_simp
  have a: "- (2 ^ 31) \<le> (1::int) \<and> (1::int) < 2 ^ 31 \<and> (0::nat) < 2 ^ 63 \<and>
      GetNumCols sample_gradient < 2 ^ 63 \<and>
      (int 0 + direction PastValue * 1 < 0 \<or>
       int (GetNumCols sample_gradient) \<le> int 0 + direction PastValue * 1)"
    unfolding n by simp
  have b: "consistent_frame ([0, 9], 9) \<and> length [0, 9 :: MinibatchPackingFlags] = 2 \<and> (1::nat) < 2 \<and>
      delayed_t PastValue 1 1 * 2 + 1 < GetNumCols ?G \<and>
      (has_flag ([0, 9] ! 1) (SequenceStart_or_End PastValue) \<or> has_flag ([0, 9] ! 1) NoFeature)"
    by code_simp
  have e: "delayed_t PastValue 1 1 * 2 + 1 = 1" "m_columns ?G ! 1 = [10, 10]"
    "int 0 + direction PastValue * 1 < 0" "consistent_frame ([0, 9], 9)"
    "has_flag ([0, 9] ! 1) (SequenceStart_or_End PastValue)"
    by code_simp+
  have f0: "timeIdxInSeq \<lparr>timeIdxInSeq = 0, samplesInRecurrentStep = 2\<rparr> = 0"
    "samplesInRecurrentStep \<lparr>timeIdxInSeq = 0, samplesInRecurrentStep = 2\<rparr> = 2"
    and f1: "timeIdxInSeq \<lparr>timeIdxInSeq = 1, samplesInRecurrentStep = 2\<rparr> = 1"
    "samplesInRecurrentStep \<lparr>timeIdxInSeq = 1, samplesInRecurrentStep = 2\<rparr> = 2"
    by simp_all
  have 1: "ComputeInputPartialSRP PastValue \<lparr>timeIdxInSeq = 0, samplesInRecurrentStep = 2\<rparr> 1
      ?G sample_gradient [1, 0] 1 = Inr ?G"
    using ComputeInputPartialSRP_drops[OF f0, THEN conjunct1, THEN mp, OF a] .
  have 2: "m_columns (state_of (ComputeInputPartialSRP PastValue
        \<lparr>timeIdxInSeq = 1, samplesInRecurrentStep = 2\<rparr> 1 ?G sample_gradient [0, 9] 9)) ! 1 = [10, 10]"
    using ComputeInputPartialSRP_drops[OF f1, THEN conjunct2, THEN mp, OF b]
    unfolding e .
  from 1 2 e show ?thesis by blast
qed

text \<open>
  C8. The contribution of a frame whose delayed frame lies outside the minibatch is not
  always dropped. The range check compares the frame index t + direction * S with the
  number of columns of the gradient buffer, which is the number of frames times the number
  of streams; the forward pass compares the column index. Take the future-value node of
  step 2 on two whole utterances of five frames, with gradient buffers of ten columns.
  SetMBLayout leaves frame 3 without a flag. Its delayed frame is frame 5, outside the
  minibatch, but 5 is below the 10 columns: the check passes, the slice of the input
  gradient for frame 5 starts at column 10, and the call stops on the fault of the matrix
  library instead of returning the input gradient unchanged.
\<close>

theorem ComputeInputPartialSRP_future_frame_faults:
  "m_timeStep sample_future_node = 2 \<and>
   m_pMBLayout sample_future_node = Some layout_whole_utterances \<and>
   GetFrame (m_pShiftedMBLayout sample_future_node) 3 = ([0, 0], 0) \<and>
   int (GetNumCols (ConstMatrix 2 10 (1::int)) div 2) \<le> int 3 + direction FutureValue * 2 \<and>
   ComputeInputPartialSRP FutureValue \<lparr>timeIdxInSeq = 3, samplesInRecurrentStep = 2\<rparr>
     (m_timeStep sample_future_node) (ConstMatrix 2 10 (0::int)) (ConstMatrix 2 10 1)
     (fst (GetFrame (m_pShiftedMBLayout sample_future_node) 3))
     (snd (GetFrame (m_pShiftedMBLayout sample_future_node) 3)) =
   Inl (MatrixFault, ConstMatrix 2 10 0)"
  by code_simp

subsection \<open>Forward pass of the delayed-value nodes\<close>

lemma UpdateSlice_cong:
  "(\<And>c old. c < n \<Longrightarrow> f c old = g c old) \<Longrightarrow> UpdateSlice M s n f = UpdateSlice M s n g"
  unfolding UpdateSlice_def by (auto intro!: Matrix_eqI)

lemma UpdateSlice_snoc:
  "UpdateSlice (UpdateSlice M s n f) (s + n) (Suc 0) (\<lambda>c. f n) = UpdateSlice M s (Suc n) f"
proof (rule Matrix_eqI)
  let ?L = "UpdateSlice (UpdateSlice M s n f) (s + n) (Suc 0) (\<lambda>c. f n)"
  show "m_numRows ?L = m_numRows (UpdateSlice M s (Suc n) f)" by simp
  show "m_columns ?L = m_columns (UpdateSlice M s (Suc n) f)"
  proof (rule nth_equalityI)
    show "length (m_columns ?L) = length (m_columns (UpdateSlice M s (Suc n) f))" by simp
    fix c assume "c < length (m_columns ?L)"
    then have c: "c < length (m_columns M)" by simp
    show "m_columns ?L ! c = m_columns (UpdateSlice M s (Suc n) f) ! c"
    proof (cases "c = s + n")
      case True
      then show ?thesis using c by (simp add: nth_UpdateSlice)
    next
      case False
      then show ?thesis using c by (auto simp: nth_UpdateSlice)
    qed
  qed
qed

lemma UpdateSlice_0: "UpdateSlice M s 0 f = M"
  unfolding UpdateSlice_def by (auto intro!: Matrix_eqI nth_equalityI)

lemma ColumnSlice_1:
  "ColumnSlice M c (Suc 0) = Inr cs \<Longrightarrow> cs = [m_columns M ! c] \<and> c < GetNumCols M"
  by (auto simp: ColumnSlice_def GetNumCols_def take_Suc_conv_app_nth[of 0, simplified] 
      take_Suc hd_drop_conv_nth split: if_splits)

lemma EvaluateThisNodeSRP_stream_Inr:
  assumes "EvaluateThisNodeSRP_stream k t mNbr delayedIndex d D X init flags i F = Inr F'"
  shows "F' = UpdateSlice F (t * mNbr + i) 1
               (\<lambda>c old. stream_col k delayedIndex d D X init flags (GetNumRows F) i)"
proof (cases "has_flag (flags ! i) (SequenceStart_or_End k)")
  case True
  with assms show ?thesis
    unfolding EvaluateThisNodeSRP_stream_def SetValueConst_def stream_col_def
    by (auto split: sum.splits)
next
  case False
  from assms False obtain inp where
    src: "delayed_source delayedIndex d D X i 1 = Inr inp"
    and sv: "SetValue F (t * mNbr + i) 1 inp = Inr F'"
    unfolding EvaluateThisNodeSRP_stream_def by (auto split: sum.splits)
  from src have inp: "inp = [if delayedIndex < 0 \<or> delayedIndex \<ge> int (GetNumCols X)
      then m_columns D ! (nat d + i) else m_columns X ! (nat d + i)]"
    unfolding delayed_source_def by (auto split: if_splits dest: ColumnSlice_1)
  from sv have "F' = UpdateSlice F (t * mNbr + i) 1 (\<lambda>c old. inp ! c)"
    unfolding SetValue_def by (auto split: if_splits)
  also have "\<dots> = UpdateSlice F (t * mNbr + i) 1
               (\<lambda>c old. stream_col k delayedIndex d D X init flags (GetNumRows F) i)"
    by (rule UpdateSlice_cong) (simp add: inp stream_col_def False)
  finally show ?thesis .
qed

lemma for_each_snoc_Inr:
  assumes "for_each (xs @ [x]) body s = Inr s'"
  obtains s1 where "for_each xs body s = Inr s1" "body x s1 = Inr s'"
  using assms by (auto simp: for_each_snoc split: sum.splits)

lemma EvaluateThisNodeSRP_stream_loop_Inr:
  assumes "for_each [0..<n] (EvaluateThisNodeSRP_stream k t mNbr delayedIndex d D X init flags) F = Inr F'"
  shows "F' = UpdateSlice F (t * mNbr) n
               (\<lambda>c old. stream_col k delayedIndex d D X init flags (GetNumRows F) c)"
  using assms
proof (induction n arbitrary: F')
  case 0
  then show ?case by (simp add: UpdateSlice_0)
next
  case (Suc n)
  let ?f = "\<lambda>c old. stream_col k delayedIndex d D X init flags (GetNumRows F) c"
  from Suc.prems obtain Fn where
    fn: "for_each [0..<n] (EvaluateThisNodeSRP_stream k t mNbr delayedIndex d D X init flags) F = Inr Fn"
    and st: "EvaluateThisNodeSRP_stream k t mNbr delayedIndex d D X init flags n Fn = Inr F'"
    by (auto elim: for_each_snoc_Inr)
  from Suc.IH[OF fn] have Fn: "Fn = UpdateSlice F (t * mNbr) n ?f" .
  then have rows: "GetNumRows Fn = GetNumRows F" by simp
  from EvaluateThisNodeSRP_stream_Inr[OF st]
  have "F' = UpdateSlice Fn (t * mNbr + n) 1 (\<lambda>c. ?f n)"
    by (simp add: rows)
  then show ?case
    unfolding Fn using UpdateSlice_snoc[of F "t * mNbr" n ?f] by simp
qed

lemma sized_like_dims [simp]:
  "GetNumRows (sized_like u X F) = GetNumRows X" "GetNumCols (sized_like u X F) = GetNumCols X"
  by (auto simp: sized_like_def Resize_def ConstMatrix_def GetNumRows_def GetNumCols_def)

lemma sized_like_same:
  "GetNumRows F = GetNumRows X \<Longrightarrow> GetNumCols F = GetNumCols X \<Longrightarrow> sized_like u X F = F"
  by (simp add: sized_like_def)

lemma ColumnSlice_nth:
  "ColumnSlice M s n = Inr cs \<Longrightarrow> c < n \<Longrightarrow> cs ! c = m_columns M ! (s + c)"
  by (auto simp: ColumnSlice_def GetNumCols_def split: if_splits)

lemma EvaluateThisNodeSRP_Inr:
  assumes r: "EvaluateThisNodeSRP k u fr S F D X init flags mbf = Inr F'"
  shows "F' = UpdateSlice (sized_like u X F) (timeIdxInSeq fr * samplesInRecurrentStep fr)
                (samplesInRecurrentStep fr)
                (\<lambda>c old. frame_col k S init X D (flags, mbf) (timeIdxInSeq fr)
                             (samplesInRecurrentStep fr) c)"
    and "timeIdxInSeq fr * samplesInRecurrentStep fr + samplesInRecurrentStep fr \<le> GetNumCols X"
proof -
  let ?t = "timeIdxInSeq fr" and ?m = "samplesInRecurrentStep fr"
  let ?F1 = "sized_like u X F"
  let ?di = "delayedIndex_of k ?t S ?m"
  let ?oor = "?di < 0 \<or> ?di \<ge> int (GetNumCols X)"
  let ?g = "\<lambda>c old. frame_col k S init X D (flags, mbf) ?t ?m c"
  from r obtain d out where
    d: "(if ?oor then wrapped_index ?di (GetNumCols D) else Inr ?di) = Inr d"
    and out: "ColumnSlice ?F1 (?t * ?m) ?m = Inr out"
    and rest: "(if has_flag mbf (SequenceStart_or_End k)
          then for_each [0..<?m]
                 (EvaluateThisNodeSRP_stream k ?t ?m ?di d D X init flags) ?F1
          else (case delayed_source ?di d D X 0 ?m of
                  Inl e \<Rightarrow> Inl (e, ?F1)
                | Inr inp \<Rightarrow> SetValue ?F1 (?t * ?m) ?m inp)) = Inr F'"
    unfolding EvaluateThisNodeSRP_def Let_def sized_like_def
    by (auto split: sum.splits if_splits)
  from d have dval: "d = (if ?oor then int32 (float_of_int ?di mod float_of_int (int (GetNumCols D)))
                               else ?di)"
    by (auto simp: wrapped_index_def Mod_def split: if_splits)
  from out show "?t * ?m + ?m \<le> GetNumCols X"
    by (auto simp: ColumnSlice_def split: if_splits)
  show "F' = UpdateSlice ?F1 (?t * ?m) ?m ?g"
  proof (cases "has_flag mbf (SequenceStart_or_End k)")
    case True
    with rest have "for_each [0..<?m]
        (EvaluateThisNodeSRP_stream k ?t ?m ?di d D X init flags) ?F1 = Inr F'" by simp
    from EvaluateThisNodeSRP_stream_loop_Inr[OF this]
    have "F' = UpdateSlice ?F1 (?t * ?m) ?m
               (\<lambda>c old. stream_col k ?di d D X init flags (GetNumRows ?F1) c)" .
    also have "\<dots> = UpdateSlice ?F1 (?t * ?m) ?m ?g"
      by (rule UpdateSlice_cong) (auto simp: stream_col_def frame_col_def True dval)
    finally show ?thesis .
  next
    case False
    with rest obtain inp where
      src: "delayed_source ?di d D X 0 ?m = Inr inp"
      and sv: "SetValue ?F1 (?t * ?m) ?m inp = Inr F'"
      by (auto split: sum.splits)
    from sv have "F' = UpdateSlice ?F1 (?t * ?m) ?m (\<lambda>c old. inp ! c)"
      unfolding SetValue_def by (auto split: if_splits)
    also have "\<dots> = UpdateSlice ?F1 (?t * ?m) ?m ?g"
    proof (rule UpdateSlice_cong)
      fix c :: nat and old :: "'a list"
      assume c: "c < ?m"
      show "inp ! c = frame_col k S init X D (flags, mbf) ?t ?m c"
        using src c False
        unfolding delayed_source_def frame_col_def
        by (auto simp: dval dest: ColumnSlice_nth split: if_splits)
    qed
    finally show ?thesis .
  qed
qed

lemma node_col_functionValues [simp]:
  "node_col k (n\<lparr>m_functionValues := F\<rparr>) X mNbr t i = node_col k n X mNbr t i"
  by (simp add: node_col_def)

lemma EvaluateThisNode_frame_Inr:
  assumes "EvaluateThisNode_frame k u mNbr X t n = Inr n'"
  shows "n' = n\<lparr>m_functionValues :=
                UpdateSlice (sized_like u X (m_functionValues n)) (t * mNbr) mNbr
                  (\<lambda>c old. node_col k n X mNbr t c)\<rparr>"
    and "t * mNbr + mNbr \<le> GetNumCols X"
proof -
  from assms obtain F' where
    r: "EvaluateThisNodeSRP k u \<lparr>timeIdxInSeq = t, samplesInRecurrentStep = mNbr\<rparr>
          (m_timeStep n) (m_functionValues n) (m_delayedActivation n) X
          (m_initialActivationValue n) (fst (GetFrame (m_pShiftedMBLayout n) t))
          (snd (GetFrame (m_pShiftedMBLayout n) t)) = Inr F'"
    and n': "n' = n\<lparr>m_functionValues := F'\<rparr>"
    unfolding EvaluateThisNode_frame_def Let_def by (auto split: sum.splits)
  from EvaluateThisNodeSRP_Inr[OF r] n'
  show "n' = n\<lparr>m_functionValues :=
                UpdateSlice (sized_like u X (m_functionValues n)) (t * mNbr) mNbr
                  (\<lambda>c old. node_col k n X mNbr t c)\<rparr>"
    and "t * mNbr + mNbr \<le> GetNumCols X"
    by (simp_all add: node_col_def)
qed

lemma frame_interval_unique:
  fixes t t' mNbr i c :: nat
  assumes "i < mNbr" "t' * mNbr \<le> t * mNbr + i" "t * mNbr + i < t' * mNbr + mNbr"
  shows "t' = t"
proof -
  have "(t * mNbr + i) div mNbr = t" using assms(1) by simp
  moreover have "(t * mNbr + i) div mNbr = t'"
  proof -
    obtain j where j: "t * mNbr + i = t' * mNbr + j" "j < mNbr"
      using assms(2,3) by (metis add_less_cancel_left le_Suc_ex)
    then show ?thesis by simp
  qed
  ultimately show ?thesis by simp
qed

lemma EvaluateThisNode_loop_keeps:
  assumes "for_each ts (EvaluateThisNode_frame k u mNbr X) n = Inr n'"
    and "GetNumRows (m_functionValues n) = GetNumRows X"
    and "GetNumCols (m_functionValues n) = GetNumCols X"
  shows "n' = n\<lparr>m_functionValues := m_functionValues n'\<rparr> \<and>
         GetNumRows (m_functionValues n') = GetNumRows X \<and>
         GetNumCols (m_functionValues n') = GetNumCols X \<and>
         (\<forall>c < GetNumCols X. (\<forall>t\<in>set ts. \<not> (t * mNbr \<le> c \<and> c < t * mNbr + mNbr)) \<longrightarrow>
            m_columns (m_functionValues n') ! c = m_columns (m_functionValues n) ! c)"
  using assms
proof (induction ts arbitrary: n)
  case Nil
  then show ?case by simp
next
  case (Cons t ts)
  from Cons.prems(1) obtain n1 where
    b: "EvaluateThisNode_frame k u mNbr X t n = Inr n1"
    and r: "for_each ts (EvaluateThisNode_frame k u mNbr X) n1 = Inr n'"
    by (auto split: sum.splits)
  let ?F1 = "UpdateSlice (m_functionValues n) (t * mNbr) mNbr (\<lambda>c old. node_col k n X mNbr t c)"
  from EvaluateThisNode_frame_Inr(1)[OF b] Cons.prems(2,3)
  have n1: "n1 = n\<lparr>m_functionValues := ?F1\<rparr>"
    by (simp add: sized_like_same)
  have d1: "GetNumRows (m_functionValues n1) = GetNumRows X"
    "GetNumCols (m_functionValues n1) = GetNumCols X"
    using Cons.prems(2,3) by (simp_all add: n1)
  note IH = Cons.IH[OF r d1]
  have e: "n' = n1\<lparr>m_functionValues := m_functionValues n'\<rparr>"
    using IH by blast
  have "n' = n\<lparr>m_functionValues := m_functionValues n'\<rparr>"
    by (rule trans[OF e]) (simp add: n1)
  moreover have "\<forall>c < GetNumCols X. (\<forall>t'\<in>set (t # ts). \<not> (t' * mNbr \<le> c \<and> c < t' * mNbr + mNbr)) \<longrightarrow>
            m_columns (m_functionValues n') ! c = m_columns (m_functionValues n) ! c"
  proof (intro allI impI)
    fix c assume c: "c < GetNumCols X"
      and out: "\<forall>t'\<in>set (t # ts). \<not> (t' * mNbr \<le> c \<and> c < t' * mNbr + mNbr)"
    then have "m_columns (m_functionValues n') ! c = m_columns (m_functionValues n1) ! c"
      using IH by simp
    also have "\<dots> = m_columns (m_functionValues n) ! c"
      using c out Cons.prems(3) by (auto simp: n1 nth_UpdateSlice GetNumCols_def)
    finally show "m_columns (m_functionValues n') ! c = m_columns (m_functionValues n) ! c" .
  qed
  ultimately show ?case using IH by simp
qed

lemma EvaluateThisNode_loop_cols:
  assumes "for_each ts (EvaluateThisNode_frame k u mNbr X) n = Inr n'" and "distinct ts"
  shows "n' = n\<lparr>m_functionValues := m_functionValues n'\<rparr> \<and>
         (ts \<noteq> [] \<longrightarrow> GetNumRows (m_functionValues n') = GetNumRows X \<and>
                     GetNumCols (m_functionValues n') = GetNumCols X) \<and>
         (\<forall>t\<in>set ts. t * mNbr + mNbr \<le> GetNumCols X \<and>
            (\<forall>i<mNbr. m_columns (m_functionValues n') ! (t * mNbr + i) = node_col k n X mNbr t i))"
  using assms
proof (induction ts arbitrary: n)
  case Nil
  then show ?case by simp
next
  case (Cons t ts)
  from Cons.prems(1) obtain n1 where
    b: "EvaluateThisNode_frame k u mNbr X t n = Inr n1"
    and r: "for_each ts (EvaluateThisNode_frame k u mNbr X) n1 = Inr n'"
    by (auto split: sum.splits)
  let ?F1 = "UpdateSlice (sized_like u X (m_functionValues n)) (t * mNbr) mNbr
               (\<lambda>c old. node_col k n X mNbr t c)"
  note fr = EvaluateThisNode_frame_Inr[OF b]
  have n1: "n1 = n\<lparr>m_functionValues := ?F1\<rparr>" using fr(1) .
  have d1: "GetNumRows (m_functionValues n1) = GetNumRows X"
    "GetNumCols (m_functionValues n1) = GetNumCols X"
    by (simp_all add: n1)
  from Cons.prems(2) have dist: "distinct ts" "t \<notin> set ts" by simp_all
  note IH = Cons.IH[OF r dist(1)]
  note keep = EvaluateThisNode_loop_keeps[OF r d1]
  have nc: "\<And>t' i. node_col k n1 X mNbr t' i = node_col k n X mNbr t' i"
    by (simp add: n1)
  have e: "n' = n1\<lparr>m_functionValues := m_functionValues n'\<rparr>"
    using keep by blast
  have eq: "n' = n\<lparr>m_functionValues := m_functionValues n'\<rparr>"
    by (rule trans[OF e]) (simp add: n1)
  have tcols: "\<forall>i<mNbr. m_columns (m_functionValues n') ! (t * mNbr + i) = node_col k n X mNbr t i"
  proof (intro allI impI)
    fix i assume i: "i < mNbr"
    have c: "t * mNbr + i < GetNumCols X" using fr(2) i by simp
    have "\<forall>t'\<in>set ts. \<not> (t' * mNbr \<le> t * mNbr + i \<and> t * mNbr + i < t' * mNbr + mNbr)"
      using frame_interval_unique[OF i] dist(2) by blast
    with keep c have "m_columns (m_functionValues n') ! (t * mNbr + i) =
        m_columns (m_functionValues n1) ! (t * mNbr + i)" by simp
    also have "\<dots> = node_col k n X mNbr t i"
      using c i by (simp add: n1 nth_UpdateSlice GetNumCols_def[symmetric])
    finally show "m_columns (m_functionValues n') ! (t * mNbr + i) = node_col k n X mNbr t i" .
  qed
  show ?case
    using eq keep IH tcols fr(2) by (simp add: nc)
qed

lemma int32_id: "- (2 ^ 31) \<le> x \<Longrightarrow> x < 2 ^ 31 \<Longrightarrow> int32 x = x"
  unfolding int32_def sint_sbintrunc'
  by (simp add: signed_take_bit_int_eq_self)

lemma frame_order_props [simp]:
  "distinct (frame_order k m)" "set (frame_order k m) = {0..<m}"
  by (cases k; simp add: frame_order_def)+

lemma EvaluateThisNode_Inr:
  assumes "EvaluateThisNode k u n X = Inr n'" and "m_pMBLayout n = Some L"
  obtains n1 where
    "for_each (frame_order k (nbrSamples_of X L))
       (EvaluateThisNode_frame k u (GetNumParallelSequences L) X) n = Inr n1"
    "n' = n1\<lparr>m_delayedActivation := X\<rparr>"
  using assms unfolding EvaluateThisNode_def
  by (auto split: sum.splits if_splits)

lemma nbrSamples_of_small:
  "GetNumCols X < 2 ^ 31 \<Longrightarrow> nbrSamples_of X L = GetNumCols X div GetNumParallelSequences L"
proof -
  assume a: "GetNumCols X < 2 ^ 31"
  have "GetNumCols X div GetNumParallelSequences L \<le> GetNumCols X" by simp
  with a have "GetNumCols X div GetNumParallelSequences L < 2 ^ 31" by linarith
  then have "int (GetNumCols X div GetNumParallelSequences L) < 2 ^ 31"
    by (metis of_nat_less_iff of_nat_numeral of_nat_power)
  then show ?thesis
    unfolding nbrSamples_of_def by (simp add: int32_id)
qed

lemma EvaluateThisNode_cols:
  assumes r: "EvaluateThisNode k u n X = Inr n'" and L: "m_pMBLayout n = Some L"
    and t: "t < nbrSamples_of X L" and i: "i < GetNumParallelSequences L"
  shows "m_columns (m_functionValues n') ! (t * GetNumParallelSequences L + i) =
         node_col k n X (GetNumParallelSequences L) t i"
    and "GetNumRows (m_functionValues n') = GetNumRows X"
    and "GetNumCols (m_functionValues n') = GetNumCols X"
proof -
  let ?m = "GetNumParallelSequences L"
  from EvaluateThisNode_Inr[OF r L] obtain n1 where
    loop: "for_each (frame_order k (nbrSamples_of X L)) (EvaluateThisNode_frame k u ?m X) n = Inr n1"
    and n': "n' = n1\<lparr>m_delayedActivation := X\<rparr>" by blast
  have ne: "frame_order k (nbrSamples_of X L) \<noteq> []"
    using t by (metis atLeastLessThan_iff empty_iff empty_set frame_order_props(2) zero_le)
  have tin: "t \<in> set (frame_order k (nbrSamples_of X L))" using t by simp
  note lc = EvaluateThisNode_loop_cols[OF loop frame_order_props(1)]
  from lc tin i show "m_columns (m_functionValues n') ! (t * ?m + i) = node_col k n X ?m t i"
    by (simp add: n')
  from lc ne show "GetNumRows (m_functionValues n') = GetNumRows X"
    and "GetNumCols (m_functionValues n') = GetNumCols X"
    by (simp_all add: n')
qed


lemma wf_Matrix_col:
  "wf_Matrix M \<Longrightarrow> c < GetNumCols M \<Longrightarrow> length (m_columns M ! c) = GetNumRows M"
  by (simp add: wf_Matrix_def list_all_length GetNumCols_def GetNumRows_def)









text \<open>
  C1. A delayed-value node of step 1 whose forward pass over the whole minibatch returns:
  for every frame t of the minibatch and stream i whose shifted flag lacks the boundary
  flag, with the delayed frame t + direction inside the input (its first column is a
  column of the input, and the column count fits an \<open>int\<close>), the output column (t, i)
  is the input column (t + direction, i), element for element.
\<close>

theorem EvaluateThisNode_copies_delayed_column:
  assumes "m_timeStep n = 1" and "m_pMBLayout n = Some L"
    and "EvaluateThisNode k u n X = Inr n'"
    and "t < GetNumCols X div GetNumParallelSequences L" and "i < GetNumParallelSequences L"
    and "\<not> Is2 (m_pShiftedMBLayout n) i t (SequenceStart_or_End k)"
    and "0 \<le> int t + direction k"
    and "(int t + direction k) * int (GetNumParallelSequences L) < int (GetNumCols X)"
    and "GetNumCols X < 2 ^ 31"
  shows "m_columns (m_functionValues n') ! (t * GetNumParallelSequences L + i) =
         m_columns X ! (nat (int t + direction k) * GetNumParallelSequences L + i)"
proof -
  let ?m = "GetNumParallelSequences L"
  let ?x = "(int t + direction k) * int ?m"
  have nf: "\<not> has_flag (fst (GetFrame (m_pShiftedMBLayout n) t) ! i) (SequenceStart_or_End k)"
    using assms(6) by (simp add: Is2_def elem_def GetFrame_def)
  have x0: "0 \<le> ?x" using assms(7) by simp
  moreover have "int (GetNumCols X) < 2 ^ 31"
    using assms(9) by (metis of_nat_less_iff of_nat_numeral of_nat_power)
  then have "?x < 2 ^ 31" using assms(8) by linarith
  ultimately have di: "delayedIndex_of k t (m_timeStep n) ?m = ?x"
    by (simp add: delayedIndex_of_def assms(1) int32_id)
  have "nat ?x = nat (int t + direction k) * ?m"
    using assms(7) by (simp add: nat_mult_distrib)
  with nf di x0 assms(8) have "node_col k n X ?m t i = m_columns X ! (nat (int t + direction k) * ?m + i)"
    by (simp add: node_col_def frame_col_def)
  moreover have "t < nbrSamples_of X L"
    using assms(4) nbrSamples_of_small[OF assms(9)] by simp
  note EvaluateThisNode_cols(1)[OF assms(3,2) this assms(5)]
  ultimately show ?thesis by simp
qed


text \<open>
  The theorem at the sample past-value node, frame 1, stream 0: the output column 2 is
  the input column 0.
\<close>

theorem EvaluateThisNode_copies_delayed_column_witness:
  "m_timeStep sample_past_node = 1 \<and> m_pMBLayout sample_past_node = Some layout_two_streams \<and>
   (1::nat) < GetNumCols sample_input div GetNumParallelSequences layout_two_streams \<and>
   (0::nat) < GetNumParallelSequences layout_two_streams \<and>
   \<not> Is2 (m_pShiftedMBLayout sample_past_node) 0 1 (SequenceStart_or_End PastValue) \<and>
   0 \<le> int 1 + direction PastValue \<and>
   (int 1 + direction PastValue) * int (GetNumParallelSequences layout_two_streams)
     < int (GetNumCols sample_input) \<and>
   (\<exists>n'. EvaluateThisNode PastValue (-1) sample_past_node sample_input = Inr n' \<and>
         m_columns (m_functionValues n') ! 2 = [10, 11])"
proof -
  let ?n = sample_past_node and ?L = layout_two_streams and ?X = sample_input
  have "\<not> isl (EvaluateThisNode PastValue (-1) ?n ?X)"
    by code_simp
  then obtain n' where r: "EvaluateThisNode PastValue (-1) ?n ?X = Inr n'"
    by (cases "EvaluateThisNode PastValue (-1) ?n ?X") auto
  have m: "GetNumParallelSequences ?L = 2" and c: "GetNumCols ?X = 10"
    by code_simp+
  have h: "m_timeStep ?n = 1" "m_pMBLayout ?n = Some ?L"
    "\<not> Is2 (m_pShiftedMBLayout ?n) 0 1 (SequenceStart_or_End PastValue)"
    by code_simp+
  have a: "(1::nat) < GetNumCols ?X div GetNumParallelSequences ?L"
    "(0::nat) < GetNumParallelSequences ?L"
    "0 \<le> int 1 + direction PastValue"
    "(int 1 + direction PastValue) * int (GetNumParallelSequences ?L) < int (GetNumCols ?X)"
    "GetNumCols ?X < 2 ^ 31"
    unfolding m c by simp_all
  have e: "m_columns ?X ! (nat (int 1 + direction PastValue) * GetNumParallelSequences ?L + 0) = [10, 11]"
    "1 * GetNumParallelSequences ?L + 0 = 2"
    by code_simp+
  from EvaluateThisNode_copies_delayed_column[OF h(1,2) r a(1,2) h(3) a(3,4,5)]
  have "m_columns (m_functionValues n') ! 2 = [10, 11]"
    unfolding e .
  with r h a show ?thesis by blast
qed


subsection \<open>The placeholder routines of the LSTM node\<close>

text \<open>
  C4. None of PrepareHistory, PrepareThisErrorsBeforeBackProp and PrepareErrors ever
  completes normally: every call ends in a fault. The fault is the placeholder LogicError
  of the routine whenever the statements before it pass: for PrepareErrors when the number
  of streams is not zero; for PrepareHistory when, in addition, the boundary matrix has one
  row per stream and holds the column of the frame; for PrepareThisErrorsBeforeBackProp
  when the number of streams is not zero, the error of the frame and the error towards it
  have the same dimensions, and the errors of the following minibatch are not in use.
\<close>

theorem Prepare_routines_fault:
  "(\<exists>fault. PrepareHistory u timeIdx slicePrevOutput slicePrevState outputValues stateValues pastOutput
              pastState nsamples initStateValue sentenceBegin = Inl fault) \<and>
   (\<exists>fault. PrepareThisErrorsBeforeBackProp n timeIdx nT gradError stateError grdToPrevOutput
              grdToPrevState obs_error state_error nsamples sentenceBegin = Inl fault) \<and>
   (\<exists>fault. PrepareErrors timeIdx errors stateError nsamples sentenceBegin = Inl fault) \<and>
   (nsamples \<noteq> 0 \<longrightarrow>
      GetNumRows sentenceBegin = nsamples \<longrightarrow>
      timeIdx div nsamples < GetNumCols sentenceBegin \<longrightarrow>
      timeIdx div nsamples < 2 ^ 31 \<longrightarrow>
      (\<exists>s. PrepareHistory u timeIdx slicePrevOutput slicePrevState outputValues stateValues pastOutput
              pastState nsamples initStateValue sentenceBegin =
            Inl (LogicError ''PrepareHistory: finish this'', s))) \<and>
   (nsamples \<noteq> 0 \<longrightarrow>
      GetNumRows gradError = GetNumRows grdToPrevOutput \<longrightarrow>
      GetNumCols gradError = GetNumCols grdToPrevOutput \<longrightarrow>
      \<not> m_use_errors_from_future_minibatch n \<longrightarrow>
      (\<exists>s. PrepareThisErrorsBeforeBackProp n timeIdx nT gradError stateError grdToPrevOutput
              grdToPrevState obs_error state_error nsamples sentenceBegin =
            Inl (LogicError ''PrepareThisErrorsBeforeBackProp: finish this'', s))) \<and>
   (nsamples \<noteq> 0 \<longrightarrow>
      PrepareErrors timeIdx errors stateError nsamples sentenceBegin =
        Inl (LogicError ''PrepareErrors: finish this'', (errors, stateError)))"
proof (intro conjI impI)
  show "\<exists>fault. PrepareHistory u timeIdx slicePrevOutput slicePrevState outputValues stateValues pastOutput
              pastState nsamples initStateValue sentenceBegin = Inl fault"
    unfolding PrepareHistory_def Let_def by (simp split: sum.split)
  show "\<exists>fault. PrepareThisErrorsBeforeBackProp n timeIdx nT gradError stateError grdToPrevOutput
              grdToPrevState obs_error state_error nsamples sentenceBegin = Inl fault"
    unfolding PrepareThisErrorsBeforeBackProp_def by (simp split: sum.split)
  show "\<exists>fault. PrepareErrors timeIdx errors stateError nsamples sentenceBegin = Inl fault"
    unfolding PrepareErrors_def by simp
next
  assume a: "nsamples \<noteq> 0" "GetNumRows sentenceBegin = nsamples"
    "timeIdx div nsamples < GetNumCols sentenceBegin" "timeIdx div nsamples < 2 ^ 31"
  have "int (timeIdx div nsamples) < 2 ^ 31"
    using a(4) by (metis of_nat_less_iff of_nat_numeral of_nat_power)
  then have "utt_t_of timeIdx nsamples = int (timeIdx div nsamples)"
    unfolding utt_t_of_def by (simp add: int32_id)
  moreover have "int (timeIdx div nsamples) mod 2 ^ 64 = int (timeIdx div nsamples)"
    using \<open>int (timeIdx div nsamples) < 2 ^ 31\<close> by simp
  ultimately have "size_t_of_int (utt_t_of timeIdx nsamples) = timeIdx div nsamples"
    by (simp add: size_t_of_int_def)
  then show "\<exists>s. PrepareHistory u timeIdx slicePrevOutput slicePrevState outputValues stateValues pastOutput
              pastState nsamples initStateValue sentenceBegin =
            Inl (LogicError ''PrepareHistory: finish this'', s)"
    using a unfolding PrepareHistory_def Let_def ColumnSlice_def by simp
next
  assume a: "nsamples \<noteq> 0" "GetNumRows gradError = GetNumRows grdToPrevOutput"
    "GetNumCols gradError = GetNumCols grdToPrevOutput" "\<not> m_use_errors_from_future_minibatch n"
  then show "\<exists>s. PrepareThisErrorsBeforeBackProp n timeIdx nT gradError stateError grdToPrevOutput
              grdToPrevState obs_error state_error nsamples sentenceBegin =
            Inl (LogicError ''PrepareThisErrorsBeforeBackProp: finish this'', s)"
    unfolding PrepareThisErrorsBeforeBackProp_def MatrixPlus_def by simp
next
  assume "nsamples \<noteq> 0"
  then show "PrepareErrors timeIdx errors stateError nsamples sentenceBegin =
        Inl (LogicError ''PrepareErrors: finish this'', (errors, stateError))"
    unfolding PrepareErrors_def by simp
qed

text \<open>
  PrepareHistory with two streams on a boundary matrix of one row: the row check comes
  before the placeholder, and the call ends in its LogicError; the two history slices
  have been resized by then.
\<close>

theorem PrepareHistory_row_check_counterexample:
  "PrepareHistory (0::int) 0 empty_Matrix empty_Matrix empty_Matrix empty_Matrix
     empty_Matrix empty_Matrix 2 0 (m_sentenceBoundaryFlags layout_start_at_1) =
   Inl (LogicError ''Number of rows should be the same as the number of data streams'',
        (ConstMatrix 0 2 0, ConstMatrix 0 2 0))"
  by code_simp

text \<open>
  The theorem at one stream and the layout of the unit test, frame 1.
\<close>

theorem Prepare_routines_fault_witness:
  "(\<exists>s. PrepareHistory (0::int) 1 empty_Matrix empty_Matrix empty_Matrix empty_Matrix
          empty_Matrix empty_Matrix 1 0 (m_sentenceBoundaryFlags layout_start_at_1) =
        Inl (LogicError ''PrepareHistory: finish this'', s)) \<and>
   (\<exists>s. PrepareThisErrorsBeforeBackProp (new_LSTMNode (0::int) False) 1 3
          (ConstMatrix 1 1 1) empty_Matrix (ConstMatrix 1 1 2) empty_Matrix empty_Matrix
          empty_Matrix 1 (m_sentenceBoundaryFlags layout_start_at_1) =
        Inl (LogicError ''PrepareThisErrorsBeforeBackProp: finish this'', s)) \<and>
   PrepareErrors 1 (ConstMatrix 1 1 (1::int)) empty_Matrix 1
       (m_sentenceBoundaryFlags layout_start_at_1) =
     Inl (LogicError ''PrepareErrors: finish this'', (ConstMatrix 1 1 1, empty_Matrix))"
proof -
  let ?sb = "m_sentenceBoundaryFlags layout_start_at_1"
  have c: "GetNumCols ?sb = 3" by code_simp
  have h1: "(1::nat) \<noteq> 0" "(1::nat) div 1 < GetNumCols ?sb" "(1::nat) div 1 < 2 ^ 31"
    unfolding c by simp_all
  have h2: "GetNumRows ?sb = 1"
    "GetNumRows (ConstMatrix 1 1 (1::int)) = GetNumRows (ConstMatrix 1 1 (2::int))"
    "GetNumCols (ConstMatrix 1 1 (1::int)) = GetNumCols (ConstMatrix 1 1 (2::int))"
    "\<not> m_use_errors_from_future_minibatch (new_LSTMNode (0::int) False)"
    by code_simp+
  note t = Prepare_routines_fault[where nsamples = 1 and timeIdx = 1 and sentenceBegin = ?sb
      and u = "0::int" and slicePrevOutput = empty_Matrix and slicePrevState = empty_Matrix
      and outputValues = empty_Matrix and stateValues = empty_Matrix and pastOutput = empty_Matrix
      and pastState = empty_Matrix and initStateValue = 0
      and n = "new_LSTMNode (0::int) False" and nT = 3 and gradError = "ConstMatrix 1 1 1"
      and stateError = empty_Matrix and grdToPrevOutput = "ConstMatrix 1 1 2"
      and grdToPrevState = empty_Matrix and obs_error = empty_Matrix
      and state_error = empty_Matrix and errors = "ConstMatrix 1 1 1"]
  from t h1 h2 show ?thesis by blast
qed

subsection \<open>Forward pass of the LSTM node\<close>

lemma PrepareHistory_Inl:
  "\<exists>e s. PrepareHistory u timeIdx spo sps output state pastOutput pastState nsamples init sb = Inl (e, s)"
  unfolding PrepareHistory_def Let_def by (simp split: sum.split)

lemma LSTM_EvaluateThisNode_frame_Inl:
  "\<exists>fault. LSTM_EvaluateThisNode_frame u cell L timeIdx n = Some (Inl fault)"
proof -
  obtain e s where "PrepareHistory u timeIdx (mSlicePrevOutput n) (mSlicePrevState n)
                        (m_functionValues n) (m_State n) (m_PastOutput n) (m_PastState n)
                        (GetNumParallelSequences L)
                        (m_DefaultState n) (m_sentenceBoundaryFlags L) = Inl (e, s)"
    using PrepareHistory_Inl[of u timeIdx "mSlicePrevOutput n" "mSlicePrevState n"
        "m_functionValues n" "m_State n" "m_PastOutput n" "m_PastState n"
        "GetNumParallelSequences L" "m_DefaultState n" "m_sentenceBoundaryFlags L"] by blast
  then show ?thesis
    unfolding LSTM_EvaluateThisNode_frame_def Let_def by (simp split: sum.split)
qed

lemma loop_while_faulting_body:
  assumes "\<And>i s. \<exists>fault. body i s = Some (Inl fault)"
  shows "loop_while cond next body i s =
           (if cond i s then body i s else Some (Inr s))"
proof -
  obtain fault where "body i s = Some (Inl fault)" using assms by blast
  then show ?thesis by (subst loop_while.simps) simp
qed

lemma reset_activations_simps [simp]:
  "m_pMBLayout (reset_activations nan n) = m_pMBLayout n"
  "m_children (reset_activations nan n) = m_children n"
  "m_functionValues (reset_activations nan n) =
     ConstMatrix (GetNumRows (m_functionValues (Inputs n 1)))
       (GetNumCols (m_functionValues (Inputs n 0))) nan"
  "m_State (reset_activations nan n) = m_functionValues (reset_activations nan n)"
  "m_Gi (reset_activations nan n) = m_functionValues (reset_activations nan n)"
  "m_Gf (reset_activations nan n) = m_functionValues (reset_activations nan n)"
  "m_Go (reset_activations nan n) = m_functionValues (reset_activations nan n)"
  "tanhState (reset_activations nan n) = m_functionValues (reset_activations nan n)"
  "tanhObs (reset_activations nan n) = m_functionValues (reset_activations nan n)"
  "m_DefaultState (reset_activations nan n) = m_DefaultState n"
  unfolding reset_activations_def Let_def by simp_all

lemma size_carried_state_simps [simp]:
  "m_pMBLayout (size_carried_state u d m n) = m_pMBLayout n"
  "m_children (size_carried_state u d m n) = m_children n"
  "m_functionValues (size_carried_state u d m n) = m_functionValues n"
  "m_State (size_carried_state u d m n) = m_State n"
  "m_Gi (size_carried_state u d m n) = m_Gi n"
  "m_Gf (size_carried_state u d m n) = m_Gf n"
  "m_Go (size_carried_state u d m n) = m_Go n"
  "tanhState (size_carried_state u d m n) = tanhState n"
  "tanhObs (size_carried_state u d m n) = tanhObs n"
  "m_DefaultState (size_carried_state u d m n) = m_DefaultState n"
  unfolding size_carried_state_def Let_def by simp_all

lemma ConstMatrix_dims [simp]:
  "GetNumRows (ConstMatrix r c v) = r" "GetNumCols (ConstMatrix r c v) = c"
  by (simp_all add: ConstMatrix_def GetNumRows_def GetNumCols_def)

lemma Inputs_head [simp]:
  "Inputs (size_carried_state u d m n) i = Inputs n i"
  "Inputs (reset_activations nan n) i = Inputs n i"
  by (simp_all add: Inputs_def)

lemma LSTM_EvaluateThisNode_first_frame:
  assumes "m_pMBLayout n = Some L" and "0 < GetNumCols (m_functionValues (Inputs n 0))"
  shows "LSTM_EvaluateThisNode u nan cell n =
           LSTM_EvaluateThisNode_frame u cell L 0
             (size_carried_state u (GetNumRows (m_functionValues (Inputs n 1)))
                (GetNumParallelSequences L) (reset_activations nan n))"
proof -
  let ?n3 = "size_carried_state u (GetNumRows (m_functionValues (Inputs n 1)))
                (GetNumParallelSequences L) (reset_activations nan n)"
  have b: "\<And>i s. \<exists>fault. LSTM_EvaluateThisNode_frame u cell L i s = Some (Inl fault)"
    by (rule LSTM_EvaluateThisNode_frame_Inl)
  obtain fault where f: "LSTM_EvaluateThisNode_frame u cell L 0 ?n3 = Some (Inl fault)"
    using b by blast
  have "loop_while (\<lambda>t s. t < GetNumCols (m_functionValues (Inputs n 0)))
          (\<lambda>t. t + GetNumParallelSequences L) (LSTM_EvaluateThisNode_frame u cell L) 0 ?n3 =
        Some (Inl fault)"
    using assms(2) f by (simp add: loop_while_faulting_body[OF b])
  with f show ?thesis
    unfolding LSTM_EvaluateThisNode_def Let_def by (simp add: assms(1))
qed

lemma LSTM_EvaluateThisNode_faults:
  assumes "0 < GetNumCols (m_functionValues (Inputs n 0))"
  shows "\<exists>fault. LSTM_EvaluateThisNode u nan cell n = Some (Inl fault)"
proof (cases "m_pMBLayout n")
  case None
  then show ?thesis unfolding LSTM_EvaluateThisNode_def Let_def by simp
next
  case (Some L)
  show ?thesis
    unfolding LSTM_EvaluateThisNode_first_frame[OF Some assms]
    by (rule LSTM_EvaluateThisNode_frame_Inl)
qed


lemma DataSlices_Inr:
  assumes "\<forall>M\<in>set Ms. timeIdxInSeq fr * samplesInRecurrentStep fr + samplesInRecurrentStep fr
             \<le> GetNumCols M"
  shows "DataSlices Ms fr = Inr ()"
  using assms by (induction Ms) (simp_all add: DataSlice_def ColumnSlice_def)

lemma PrepareHistory_first_frame:
  assumes "nsamples \<noteq> 0" and "GetNumRows sentenceBegin = nsamples"
    and "0 < GetNumCols sentenceBegin"
  shows "\<exists>s. PrepareHistory u 0 spo sps output state pastOutput pastState nsamples init
               sentenceBegin = Inl (LogicError ''PrepareHistory: finish this'', s)"
proof -
  have "size_t_of_int (utt_t_of 0 nsamples) = 0"
    by (simp add: size_t_of_int_def utt_t_of_def int32_id)
  then show ?thesis
    using assms unfolding PrepareHistory_def Let_def ColumnSlice_def by simp
qed

lemma LSTM_EvaluateThisNode_frame_first:
  assumes "0 < GetNumParallelSequences L" and "0 < GetNumCols (m_sentenceBoundaryFlags L)"
    and "\<forall>M\<in>set [m_functionValues (Inputs n 0), m_functionValues n, m_State n,
                    m_Gi n, m_Gf n, m_Go n, tanhState n, tanhObs n].
           GetNumParallelSequences L \<le> GetNumCols M"
  shows "\<exists>n'. LSTM_EvaluateThisNode_frame u cell L 0 n =
               Some (Inl (LogicError ''PrepareHistory: finish this'', n')) \<and>
             m_functionValues n' = m_functionValues n"
proof -
  let ?fr = "\<lparr>timeIdxInSeq = 0, samplesInRecurrentStep = GetNumParallelSequences L\<rparr>"
  have c: "Check ?fr 0 (GetNumParallelSequences L) = Inr ?fr"
    by (simp add: Check_def)
  have d: "DataSlices [m_functionValues (Inputs n 0), m_functionValues n, m_State n,
                    m_Gi n, m_Gf n, m_Go n, tanhState n, tanhObs n] ?fr = Inr ()"
    by (rule DataSlices_Inr) (use assms(3) in simp)
  have r: "GetNumRows (m_sentenceBoundaryFlags L) = GetNumParallelSequences L"
    by (simp add: GetNumParallelSequences_def)
  have nz: "GetNumParallelSequences L \<noteq> 0" using assms(1) by simp
  obtain s where p: "PrepareHistory u 0 (mSlicePrevOutput n) (mSlicePrevState n)
                        (m_functionValues n) (m_State n) (m_PastOutput n) (m_PastState n)
                        (GetNumParallelSequences L)
                        (m_DefaultState n) (m_sentenceBoundaryFlags L) =
                     Inl (LogicError ''PrepareHistory: finish this'', s)"
    using PrepareHistory_first_frame[OF nz r assms(2), of u "mSlicePrevOutput n"
        "mSlicePrevState n" "m_functionValues n" "m_State n" "m_PastOutput n" "m_PastState n"
        "m_DefaultState n"]
    by blast
  show ?thesis
    using c d p unfolding LSTM_EvaluateThisNode_frame_def Let_def by simp
qed

lemma UnitTest_layout: "SetFlag (new_MBLayout 1 3) 0 1 SequenceStart = layout_start_at_1"
  by code_simp

lemma UnitTest_setup_simps:
  "m_pMBLayout (UnitTest_setup u tenth zero n) = Some layout_start_at_1"
  "m_functionValues (Inputs (UnitTest_setup u tenth zero n) 0) = ConstMatrix 2 3 tenth"
  "m_functionValues (Inputs (UnitTest_setup u tenth zero n) (Suc 0)) = ConstMatrix 3 7 tenth"
  unfolding UnitTest_setup_def Let_def Inputs_def UnitTest_layout by simp_all

text \<open>
  C5. The reference scenario of UnitTest does not produce the expected output. After the
  set-up of UnitTest (input dimension 2, output dimension 3, three frames, one stream whose
  sequence starts at frame 1, all inputs and weights 0.1, default state 0.0), whatever the
  node held before and whatever the cell arithmetic computes, EvaluateThisNode stops at the
  first frame with the LogicError of PrepareHistory; the output buffer then holds NaN in
  all its nine elements, and the backward sweep of the test is never reached.
\<close>

theorem LSTM_UnitTest_forward_faults:
  "\<exists>n'. LSTM_EvaluateThisNode u nan EvaluateThisNodeS (UnitTest_setup u tenth zero n) =
          Some (Inl (LogicError ''PrepareHistory: finish this'', n')) \<and>
        m_functionValues n' = ConstMatrix 3 3 nan"
proof -
  let ?L = layout_start_at_1 and ?n = "UnitTest_setup u tenth zero n"
  let ?n3 = "size_carried_state u (GetNumRows (m_functionValues (Inputs ?n 1)))
                (GetNumParallelSequences ?L) (reset_activations nan ?n)"
  have L: "GetNumParallelSequences ?L = 1" "GetNumCols (m_sentenceBoundaryFlags ?L) = 3"
    by (simp_all add: layout_start_at_1_def GetNumParallelSequences_def GetNumRows_def GetNumCols_def)
  have F: "m_functionValues ?n3 = ConstMatrix 3 3 nan"
    by (simp add: UnitTest_setup_simps)
  have e: "LSTM_EvaluateThisNode u nan EvaluateThisNodeS ?n =
           LSTM_EvaluateThisNode_frame u EvaluateThisNodeS ?L 0 ?n3"
    by (rule LSTM_EvaluateThisNode_first_frame) (simp_all add: UnitTest_setup_simps)
  have "\<exists>n'. LSTM_EvaluateThisNode_frame u EvaluateThisNodeS ?L 0 ?n3 =
               Some (Inl (LogicError ''PrepareHistory: finish this'', n')) \<and>
             m_functionValues n' = m_functionValues ?n3"
    by (rule LSTM_EvaluateThisNode_frame_first)
       (simp_all add: L UnitTest_setup_simps)
  then show ?thesis unfolding e F .
qed

subsection \<open>Gradient of the LSTM node\<close>

lemma PrepareThisErrorsBeforeBackProp_Inl:
  "\<exists>fault. PrepareThisErrorsBeforeBackProp n timeIdx nT error stateError grdToPrevOutput
              grdToPrevState obs_error state_error nsamples sentenceBegin = Inl fault"
  unfolding PrepareThisErrorsBeforeBackProp_def by (simp split: sum.split)

lemma BackwardFrame_Inl:
  "\<exists>fault. BackwardFrame u gates L nT outputDim t st = Some (Inl fault)"
proof -
  obtain n se gpo gps where st: "st = (n, se, gpo, gps)" by (cases st)
  let ?nPar = "GetNumParallelSequences L"
  let ?fr = "\<lparr>timeIdxInSeq = size_t_of_int t, samplesInRecurrentStep = ?nPar\<rparr>"
  show ?thesis
  proof (cases "Check ?fr (size_t_of_int t) ?nPar")
    case (Inl e)
    then show ?thesis unfolding BackwardFrame_def Let_def st by simp
  next
    case c: (Inr fr)
    show ?thesis
    proof (cases "DataSlices [m_functionValues (Inputs n 0), m_functionValues n, m_State n,
                              m_Gi n, m_Gf n, m_Go n, tanhState n, tanhObs n] fr")
      case (Inl e)
      with c show ?thesis unfolding BackwardFrame_def Let_def st by simp
    next
      case d: (Inr slices)
      show ?thesis
      proof (cases "DataSlice (m_gradientValues n) fr")
        case (Inl e)
        with c d show ?thesis unfolding BackwardFrame_def Let_def st by simp
      next
        case g: (Inr error)
        obtain fault where p: "PrepareThisErrorsBeforeBackProp n (size_t_of_int t) nT
             \<lparr>m_numRows = GetNumRows (m_gradientValues n), m_columns = error\<rparr>
             se gpo gps
             (m_obs_error_from_future_minibatch n) (m_state_error_from_future_minibatch n) ?nPar
             (m_sentenceBoundaryFlags L) = Inl fault"
          using PrepareThisErrorsBeforeBackProp_Inl[of n "size_t_of_int t" nT
              "\<lparr>m_numRows = GetNumRows (m_gradientValues n), m_columns = error\<rparr>"
              se gpo gps
              "m_obs_error_from_future_minibatch n" "m_state_error_from_future_minibatch n"
              ?nPar "m_sentenceBoundaryFlags L"] by blast
        from c d g p show ?thesis unfolding BackwardFrame_def Let_def st by simp
      qed
    qed
  qed
qed


lemma cached_gradient_reset:
  assumes "i \<le> 4"
  shows "cached_gradient (reset_gradients n) i =
           ConstMatrix (GetNumRows (m_functionValues (Inputs n i)))
             (GetNumCols (m_functionValues (Inputs n i))) 0"
proof -
  from assms have "i = 0 \<or> i = 1 \<or> i = 2 \<or> i = 3 \<or> i = 4" by linarith
  then show ?thesis
    by (elim disjE) (simp_all add: cached_gradient_def reset_gradients_def Let_def)
qed

lemma BackwardSweep_Inr:
  assumes "BackwardSweep u gates n = Some (Inr n1)" and "i \<le> 4"
  shows "cached_gradient n1 i =
           ConstMatrix (GetNumRows (m_functionValues (Inputs n i)))
             (GetNumCols (m_functionValues (Inputs n i))) 0"
proof -
  from assms(1) obtain L where L: "m_pMBLayout (reset_gradients n) = Some L"
    unfolding BackwardSweep_def Let_def by (auto split: if_splits option.splits)
  let ?nT = "GetNumCols (m_functionValues (Inputs n 0))"
  let ?d = "GetNumRows (m_functionValues (Inputs n 1))"
  let ?init = "(reset_gradients n,
       ConstMatrix ?d (GetNumParallelSequences L) u,
       ConstMatrix ?d (GetNumParallelSequences L) 0,
       ConstMatrix ?d (GetNumParallelSequences L) 0)"
  let ?loop = "loop_while (\<lambda>t st. 0 \<le> t) (\<lambda>t. int32 (t - int (GetNumParallelSequences L)))
       (BackwardFrame u gates L ?nT ?d) (int32 (int ?nT - int (GetNumParallelSequences L))) ?init"
  from assms(1) L obtain st where st: "?loop = Some (Inr st)"
    and n1: "n1 = (fst st)\<lparr>m_obs_error_from_future_minibatch := fst (snd (snd st)),
                         m_state_error_from_future_minibatch := snd (snd (snd st)),
                         m_GradientComputed := True\<rparr>"
    unfolding BackwardSweep_def Let_def
    by (auto split: if_splits option.splits sum.splits)
  have body: "\<And>t s. \<exists>fault. BackwardFrame u gates L ?nT ?d t s = Some (Inl fault)"
    by (rule BackwardFrame_Inl)
  have "st = ?init"
    using st body unfolding loop_while_faulting_body[OF body]
    by (metis Inl_Inr_False option.inject sum.inject(2))
  then have "cached_gradient n1 i = cached_gradient (reset_gradients n) i"
    unfolding n1 cached_gradient_def by simp
  then show ?thesis using cached_gradient_reset[OF assms(2)] by simp
qed



lemma set_input_gradient_simps [simp]:
  "m_GradientComputed (set_input_gradient n i G) = m_GradientComputed n"
  "cached_gradient (set_input_gradient n i G) j = cached_gradient n j"
  "i < length (m_children n) \<Longrightarrow> m_gradientValues (Inputs (set_input_gradient n i G) i) = G"
  "length (m_children (set_input_gradient n i G)) = length (m_children n)"
  by (simp_all add: set_input_gradient_def cached_gradient_def Inputs_def)






subsection \<open>Saving and loading\<close>

lemma Resize_dims [simp]:
  "GetNumRows (Resize u r c M) = r" "GetNumCols (Resize u r c M) = c"
  by (auto simp: Resize_def)







end
